theory Spec2Isabelle
  imports
    Complex_Main
    "HOL-Library.Product_Lexorder"
    "HOL-Library.List_Lexorder"
    "HOL-Library.Char_ord"
    "HOL-Library.AList"
    "HOL-Library.Log_Nat"
begin

section \<open>Python values used by the dataset module\<close>

text \<open>
  The exceptions that the modelled code can raise. \<open>ValueError_size expected actual\<close> is
  the \<^verbatim>\<open>ValueError("Dataset should be {0} bytes (was {1})")\<close> of \<^verbatim>\<open>Dataset.__init__\<close>;
  \<open>ValueError_mmap_empty\<close> is the \<^verbatim>\<open>ValueError("cannot mmap an empty file")\<close> that
  \<^verbatim>\<open>mmap.mmap(fd, 0, ...)\<close> raises on a file of length 0; \<open>OSError_seek\<close> is the
  error of \<^verbatim>\<open>f.seek(-1)\<close>; \<open>OverflowError\<close> is raised by a true division of integers
  whose quotient is too large for a float. File names are strings of ASCII characters.
\<close>

datatype py_error =
    AssertionError
  | IndexError
  | FileNotFoundError
  | ZeroDivisionError
  | OverflowError
  | ValueError_size nat nat
  | ValueError_mmap_empty
  | OSError_seek

text \<open>
  \<^verbatim>\<open>range(start, stop, step)\<close> for a positive step: the values
  \<open>start + step * k\<close> below \<open>stop\<close>. The module only uses steps 1 and 3.
\<close>

definition py_range :: "int \<Rightarrow> int \<Rightarrow> int \<Rightarrow> int list" where
  "py_range start stop step =
     map (\<lambda>k. start + step * int k) [0..<nat ((stop - start + step - 1) div step)]"

text \<open>\<^verbatim>\<open>int(x)\<close> on a float: truncation towards zero.\<close>

definition py_int :: "rat \<Rightarrow> int" where
  "py_int x = (if 0 \<le> x then \<lfloor>x\<rfloor> else \<lceil>x\<rceil>)"

subsection \<open>Floats\<close>

text \<open>
  A Python float is an IEEE 754 double. Its value is a rational number, and every
  arithmetic operation returns the exact result rounded to the nearest double, ties to
  the even significand. \<open>fl\<close> is that rounding for the normal range: with
  \<open>2^e \<le> |x| < 2^(e+1)\<close> the doubles near \<open>x\<close> are the multiples of \<open>2^(e-52)\<close>. The
  quantities that the module computes from a file size lie between \<open>2^(-53)\<close> and
  \<open>2^63\<close> in magnitude or are zero, far from the subnormal and the overflow range.
\<close>

definition round_half_even :: "rat \<Rightarrow> int" where
  "round_half_even q =
     (let f = \<lfloor>q\<rfloor>; r = q - of_int f
      in if r < 1 / 2 then f
         else if 1 / 2 < r then f + 1
         else if even f then f else f + 1)"

text \<open>
  The exponent \<open>e\<close> with \<open>2^e \<le> x < 2^(e+1)\<close> of a positive rational, from the bit lengths
  of its numerator and denominator (\<open>float_exponent_bounds\<close> below).
\<close>

definition float_exponent :: "rat \<Rightarrow> int" where
  "float_exponent x =
     (case quotient_of x of
        (p, q) \<Rightarrow>
          (let d = bitlen p - bitlen q
           in if 2 powi d \<le> x then d else d - 1))"

definition fl :: "rat \<Rightarrow> rat" where
  "fl x =
     (if x = 0 then 0
      else
        (let a = \<bar>x\<bar>;
             ulp = 2 powi (float_exponent a - 52)
         in sgn x * of_int (round_half_even (a / ulp)) * ulp))"

text \<open>\<^verbatim>\<open>sorted(xs, reverse=True)\<close>.\<close>

definition sorted_reverse :: "('a::linorder) list \<Rightarrow> 'a list" where
  "sorted_reverse xs = rev (sort xs)"

section \<open>Grid layout: the class attributes of \<^verbatim>\<open>Dataset\<close>\<close>

type_synonym shape_t = "nat \<times> nat \<times> nat \<times> nat \<times> nat"

record axes_t =
  hour :: "int list"
  pressure :: "int list"
  variable :: "string list"
  latitude :: "rat list"
  longitude :: "rat list"

definition pressures_pgrb2f :: "int list" where
  "pressures_pgrb2f = [10, 20, 30, 50, 70, 100, 150, 200, 250, 300, 350, 400,
                       450, 500, 550, 600, 650, 700, 750, 800, 850, 900, 925,
                       950, 975, 1000]"

definition pressures_pgrb2bf :: "int list" where
  "pressures_pgrb2bf = [1, 2, 3, 5, 7, 125, 175, 225, 275, 325, 375, 425,
                        475, 525, 575, 625, 675, 725, 775, 825, 875]"

definition element_size :: nat where
  "element_size = 4"

text \<open>\<^verbatim>\<open>tuple(len(x) for x in axes)\<close>, the right-hand side of the class's assertion.\<close>

definition axes_lens :: "axes_t \<Rightarrow> shape_t" where
  "axes_lens a =
     (length (hour a), length (pressure a), length (variable a),
      length (latitude a), length (longitude a))"

text \<open>
  \<^verbatim>\<open>size = element_size; for _x in shape: size *= _x\<close>
\<close>

definition size_of_shape :: "shape_t \<Rightarrow> nat" where
  "size_of_shape s =
     (case s of (s0, s1, s2, s3, s4) \<Rightarrow> foldl (*) element_size [s0, s1, s2, s3, s4])"

text \<open>
  The axes built in the class body and again in \<^verbatim>\<open>setup\<close>: only the hour axis depends on
  the forecast range. Latitude and longitude are \<^verbatim>\<open>x/2.0\<close> for integer \<open>x\<close>, which is exact
  in binary floating point, so rationals represent them faithfully.
\<close>

definition make_axes :: "int list \<Rightarrow> axes_t" where
  "make_axes forecast_range' =
     \<lparr> hour = forecast_range',
       pressure = sorted_reverse (pressures_pgrb2f @ pressures_pgrb2bf),
       variable = [''height'', ''wind_u'', ''wind_v''],
       latitude = map (\<lambda>x. rat_of_int x / 2) (py_range (-180) (180 + 1) 1),
       longitude = map (\<lambda>x. rat_of_int x / 2) (py_range 0 720 1) \<rparr>"

text \<open>
  The axes as the specification lists them: the hours given, the 47 pressure levels in
  descending order, the three variables, the latitudes \<open>-90.0, -89.5, ..., 90.0\<close> and the
  longitudes \<open>0.0, 0.5, ..., 359.5\<close>. This definition follows the specification; the
  theorems compare it with the axes that the code builds.
\<close>

definition spec_axes :: "int list \<Rightarrow> axes_t" where
  "spec_axes hours =
     \<lparr> hour = hours,
       pressure = [1000, 975, 950, 925, 900, 875, 850, 825, 800, 775, 750, 725, 700, 675,
                   650, 625, 600, 575, 550, 525, 500, 475, 450, 425, 400, 375, 350, 325,
                   300, 275, 250, 225, 200, 175, 150, 125, 100, 70, 50, 30, 20, 10, 7, 5,
                   3, 2, 1],
       variable = [''height'', ''wind_u'', ''wind_v''],
       latitude = map (\<lambda>i. - 90 + rat_of_nat i / 2) [0..<361],
       longitude = map (\<lambda>i. rat_of_nat i / 2) [0..<720] \<rparr>"

section \<open>Timestamps and file names\<close>

text \<open>
  A \<^verbatim>\<open>datetime\<close> is the tuple (year, month, day, hour, minute, second, microsecond);
  Python compares naive datetimes field by field in this order, which is the lexicographic
  order on the tuple.
\<close>

type_synonym datetime = "nat \<times> nat \<times> nat \<times> nat \<times> nat \<times> nat \<times> nat"

definition digit_val :: "char \<Rightarrow> nat option" where
  "digit_val c =
     (if CHR ''0'' \<le> c \<and> c \<le> CHR ''9'' then Some (of_char c - 48) else None)"

definition two_digits :: "char \<Rightarrow> char \<Rightarrow> nat option" where
  "two_digits a b =
     (case (digit_val a, digit_val b) of
        (Some x, Some y) \<Rightarrow> Some (10 * x + y)
      | _ \<Rightarrow> None)"

definition is_leap :: "nat \<Rightarrow> bool" where
  "is_leap y = (y mod 4 = 0 \<and> (y mod 100 \<noteq> 0 \<or> y mod 400 = 0))"

definition days_in_month :: "nat \<Rightarrow> nat \<Rightarrow> nat" where
  "days_in_month y m =
     (if m = 2 then (if is_leap y then 29 else 28)
      else if m \<in> {4, 6, 9, 11} then 30 else 31)"

text \<open>
  \<^verbatim>\<open>datetime.strptime(s, "%Y%m%d%H")\<close> on a string of ten characters, which is the only
  way \<^verbatim>\<open>listdir\<close> calls it (\<open>None\<close> is the \<^verbatim>\<open>ValueError\<close>). The library matches the
  regular expression
  \<^verbatim>\<open>(\d\d\d\d)(1[0-2]|0[1-9]|[1-9])(3[0-1]|[1-2]\d|0[1-9]|[1-9]| [1-9])(2[0-3]|[0-1]\d|\d)\<close>
  and rejects a match that leaves characters over, so on ten characters every field has
  its full width: four digits of year, a month 01..12, a day 01..31 (or a blank and a
  digit 1..9) and an hour 00..23. The date must then exist (year at least 1, day within
  the month).
\<close>

definition strptime_YmdH :: "string \<Rightarrow> datetime option" where
  "strptime_YmdH s =
     (case s of
        [y1, y2, y3, y4, m1, m2, d1, d2, h1, h2] \<Rightarrow>
          (case (two_digits y1 y2, two_digits y3 y4, two_digits m1 m2,
                 (if d1 = CHR '' '' then digit_val d2 else two_digits d1 d2),
                 two_digits h1 h2) of
             (Some yh, Some yl, Some m, Some d, Some h) \<Rightarrow>
               (let y = 100 * yh + yl in
                if 1 \<le> y \<and> 1 \<le> m \<and> m \<le> 12 \<and> 1 \<le> d \<and> d \<le> days_in_month y m \<and> h \<le> 23
                then Some (y, m, d, h, 0, 0, 0) else None)
           | _ \<Rightarrow> None)
      | _ \<Rightarrow> None)"

definition digit_char :: "nat \<Rightarrow> char" where
  "digit_char n = ''0123456789'' ! (n mod 10)"

text \<open>
  \<^verbatim>\<open>ds_time.strftime("%Y%m%d%H")\<close>, which the C library formats. Month, day and hour are
  padded with a zero to two digits. The year is printed as glibc prints it, without
  padding: the year 999 gives \<^verbatim>\<open>999\<close>. A datetime's year is at most 9999.
\<close>

definition year_digits :: "nat \<Rightarrow> string" where
  "year_digits y =
     (if y < 10 then [digit_char y]
      else if y < 100 then [digit_char (y div 10), digit_char y]
      else if y < 1000 then [digit_char (y div 100), digit_char (y div 10), digit_char y]
      else [digit_char (y div 1000), digit_char (y div 100), digit_char (y div 10),
            digit_char y])"

definition strftime_YmdH :: "datetime \<Rightarrow> string" where
  "strftime_YmdH t =
     (case t of (y, m, d, h, _) \<Rightarrow>
        year_digits y @
        [digit_char (m div 10), digit_char m,
         digit_char (d div 10), digit_char d,
         digit_char (h div 10), digit_char h])"

text \<open>\<^verbatim>\<open>os.path.join(a, b)\<close> for two components.\<close>

definition path_join :: "string \<Rightarrow> string \<Rightarrow> string" where
  "path_join a b =
     (if b \<noteq> [] \<and> hd b = CHR ''/'' then b
      else if a = [] \<or> last a = CHR ''/'' then a @ b
      else a @ ''/'' @ b)"

definition filename :: "datetime \<Rightarrow> string \<Rightarrow> string \<Rightarrow> string" where
  "filename t dir suffix = path_join dir (strftime_YmdH t @ suffix)"

section \<open>Datasets and the process state\<close>

record mmap_t =
  map_length :: nat
  map_writable :: bool

text \<open>
  A \<^verbatim>\<open>Dataset\<close> instance. \<^verbatim>\<open>__init__\<close> assigns exactly these attributes; \<open>obj_id\<close> is the
  identity of the Python object. An instance has no \<^verbatim>\<open>size\<close>, \<^verbatim>\<open>shape\<close>, \<^verbatim>\<open>axes\<close> or
  \<^verbatim>\<open>forecast_range\<close> attribute of its own: \<^verbatim>\<open>self.size\<close> and \<^verbatim>\<open>self.shape\<close> read the
  class attributes.
\<close>

record dataset =
  obj_id :: nat
  directory :: string
  ds_time :: datetime
  new :: bool
  fn :: string
  array :: mmap_t

text \<open>
  The state of the process as far as the module touches it: the class attributes of
  \<^verbatim>\<open>Dataset\<close> that are reassigned at run time (\<open>size_cls\<close> is the attribute \<^verbatim>\<open>size\<close>), the
  pending \<^verbatim>\<open>signal.alarm\<close>, the next object identity, and the file system: for every
  directory its entries in \<^verbatim>\<open>os.listdir\<close> order, each with its length in bytes. The file
  that \<^verbatim>\<open>Dataset.filename(ds_time, directory)\<close> names is the entry of \<open>directory\<close> called
  \<^verbatim>\<open>ds_time.strftime("%Y%m%d%H")\<close>.
\<close>

record world =
  forecast_range :: "int list"
  shape :: shape_t
  axes :: axes_t
  size_cls :: nat
  cached_latest :: "dataset option"
  alarm :: "nat option"
  next_obj :: nat
  fs :: "string \<Rightarrow> (string \<times> nat) list"

text \<open>The class body, executed once at import.\<close>

definition class_body :: "(string \<Rightarrow> (string \<times> nat) list) \<Rightarrow> world" where
  "class_body files =
     (let forecast_range' = py_range 0 (192 + 3) 3;
          shape' = (length forecast_range', 47, 3, 361, 720)
      in \<lparr> forecast_range = forecast_range',
           shape = shape',
           axes = make_axes forecast_range',
           size_cls = size_of_shape shape',
           cached_latest = None,
           alarm = None,
           next_obj = 0,
           fs = files \<rparr>)"

definition forecast_hours :: "world \<Rightarrow> int" where
  "forecast_hours w = (int (fst (shape w)) - 1) * 3"

text \<open>
  \<^verbatim>\<open>Dataset.setup(forecastHours)\<close>. The argument is an int or a float; the assertion is a
  branch of the model.
\<close>

definition setup_cls :: "world \<Rightarrow> rat \<Rightarrow> py_error + world" where
  "setup_cls w forecastHours =
     (let forecast_range' = py_range 0 (py_int forecastHours + 3) 3;
          shape' = (length forecast_range', 47, 3, 361, 720);
          axes' = make_axes forecast_range'
      in if shape' \<noteq> axes_lens axes' then Inl AssertionError
         else Inr (w\<lparr> size_cls := size_of_shape shape',
                      forecast_range := forecast_range',
                      shape := shape',
                      axes := axes' \<rparr>))"

section \<open>Scanning a directory\<close>

text \<open>
  A row of \<^verbatim>\<open>listdir\<close>: the named tuple \<^verbatim>\<open>(ds_time, suffix, filename, path)\<close>. Named tuples
  compare as tuples.
\<close>

type_synonym listdir_row = "datetime \<times> string \<times> string \<times> string"

text \<open>
  \<^verbatim>\<open>only_suffices\<close> is \<^verbatim>\<open>None\<close> or a collection of suffixes. The test
  \<^verbatim>\<open>only_suffices and suffix not in only_suffices\<close> uses the truth value of the collection,
  which is false for \<^verbatim>\<open>None\<close> and for an empty collection.
\<close>

definition skip_suffix :: "string list option \<Rightarrow> string \<Rightarrow> bool" where
  "skip_suffix only_suffices suffix =
     (case only_suffices of
        None \<Rightarrow> False
      | Some xs \<Rightarrow> xs \<noteq> [] \<and> suffix \<notin> set xs)"

fun listdir_loop :: "string \<Rightarrow> string list option \<Rightarrow> string list \<Rightarrow> listdir_row list" where
  "listdir_loop dir only_suffices [] = []"
| "listdir_loop dir only_suffices (name # rest) =
     (if length name < 10 then listdir_loop dir only_suffices rest
      else
        (case strptime_YmdH (take 10 name) of
           None \<Rightarrow> listdir_loop dir only_suffices rest
         | Some t \<Rightarrow>
             (let suffix = drop 10 name in
              if skip_suffix only_suffices suffix then listdir_loop dir only_suffices rest
              else (t, suffix, name, path_join dir name) # listdir_loop dir only_suffices rest)))"

definition os_listdir :: "world \<Rightarrow> string \<Rightarrow> string list" where
  "os_listdir w dir = map fst (fs w dir)"

definition listdir :: "world \<Rightarrow> string \<Rightarrow> string list option \<Rightarrow> listdir_row list" where
  "listdir w dir only_suffices = listdir_loop dir only_suffices (os_listdir w dir)"

section \<open>Opening a dataset\<close>

text \<open>
  \<^verbatim>\<open>mmap.mmap(f.fileno(), 0, prot=prot, flags=flags)\<close>: length 0 maps the whole file, and
  the call raises \<^verbatim>\<open>ValueError\<close> on an empty file.
\<close>

definition mmap_whole :: "nat \<Rightarrow> bool \<Rightarrow> py_error + mmap_t" where
  "mmap_whole len writable =
     (if len = 0 then Inl ValueError_mmap_empty
      else Inr \<lparr> map_length = len, map_writable = writable \<rparr>)"

text \<open>
  \<^verbatim>\<open>sz / self.element_size / self.shape[1] / self.shape[2] / self.shape[3] / self.shape[4]\<close>,
  evaluated from left to right. The first division is a true division of two integers:
  it returns the quotient rounded to a double, and raises \<^verbatim>\<open>OverflowError\<close> when that
  exceeds the largest double. Each later division divides the float by an integer (which
  converts to a float exactly, the extents being small) and rounds again. A zero divisor
  raises.
\<close>

definition hour_steps :: "world \<Rightarrow> nat \<Rightarrow> py_error + rat" where
  "hour_steps w sz =
     (case shape w of (s0, s1, s2, s3, s4) \<Rightarrow>
        if element_size = 0 then Inl ZeroDivisionError
        else if 2 ^ 1024 - 2 ^ 970 \<le> rat_of_nat sz / rat_of_nat element_size
        then Inl OverflowError
        else if s1 = 0 \<or> s2 = 0 \<or> s3 = 0 \<or> s4 = 0 then Inl ZeroDivisionError
        else Inr (fl (fl (fl (fl (fl (of_nat sz / of_nat element_size) / of_nat s1)
                               / of_nat s2) / of_nat s3) / of_nat s4)))"

text \<open>
  The horizon as the specification words it: \<open>hour_steps = size / (4 * 47 * 3 * 361 * 720)\<close>
  and \<open>forecast_horizon_hours = (hour_steps - 1) * 3\<close>, first as exact numbers and then
  as the same formula evaluated in doubles, one rounded operation after the other, with
  the extents written out. These definitions follow the specification, not the code; the
  theorems compare them with what \<^verbatim>\<open>__init__\<close> computes from the class attributes.
\<close>

definition spec_hour_steps :: "nat \<Rightarrow> rat" where
  "spec_hour_steps sz = of_nat sz / (4 * 47 * 3 * 361 * 720)"

definition spec_forecast_horizon_hours :: "nat \<Rightarrow> rat" where
  "spec_forecast_horizon_hours sz = (spec_hour_steps sz - 1) * 3"

definition spec_horizon_double :: "nat \<Rightarrow> rat" where
  "spec_horizon_double sz =
     fl (fl (fl (fl (fl (fl (fl (of_nat sz / 4) / 47) / 3) / 361) / 720) - 1) * 3)"

text \<open>
  \<^verbatim>\<open>Dataset(ds_time, directory, new, determineTime)\<close>. The result carries the state after
  the call also when the call raises: \<^verbatim>\<open>setup\<close> has reassigned the class attributes before
  the size is compared, and \<^verbatim>\<open>open(fn, "w+b")\<close> has created the file before \<^verbatim>\<open>seek\<close>.
  \<^verbatim>\<open>(time-1)*3\<close> is a float subtraction and a float multiplication, each rounded. The
  size that \<^verbatim>\<open>f.tell()\<close> reports is an offset of the operating system, below \<open>2^63\<close>.
\<close>

definition Dataset_init ::
  "world \<Rightarrow> datetime \<Rightarrow> string \<Rightarrow> bool \<Rightarrow> bool \<Rightarrow> world \<times> (py_error + dataset)" where
  "Dataset_init w t dir is_new determineTime =
     (let w0 = w\<lparr> next_obj := next_obj w + 1 \<rparr>;
          name = strftime_YmdH t;
          self = (\<lambda>m. \<lparr> obj_id = next_obj w, directory = dir, ds_time = t, new = is_new,
                        fn = filename t dir [], array = m \<rparr>)
      in if is_new then
           (if size_cls w0 = 0 then
              (w0\<lparr> fs := (fs w0)(dir := AList.update name 0 (fs w0 dir)) \<rparr>, Inl OSError_seek)
            else
              (let w1 = w0\<lparr> fs := (fs w0)(dir := AList.update name (size_cls w0) (fs w0 dir)) \<rparr>
               in (w1, map_sum id self (mmap_whole (size_cls w0) True))))
         else
           (case map_of (fs w0 dir) name of
              None \<Rightarrow> (w0, Inl FileNotFoundError)
            | Some sz \<Rightarrow>
                (case (if determineTime then
                         (case hour_steps w0 sz of
                            Inl e \<Rightarrow> Inl e
                          | Inr time \<Rightarrow> setup_cls w0 (fl (fl (time - 1) * 3)))
                       else Inr w0) of
                   Inl e \<Rightarrow> (w0, Inl e)
                 | Inr w1 \<Rightarrow>
                     if sz \<noteq> size_cls w1 then (w1, Inl (ValueError_size (size_cls w1) sz))
                     else (w1, map_sum id self (mmap_whole sz False)))))"

section \<open>The cache of the latest dataset\<close>

text \<open>\<^verbatim>\<open>prune_latest\<close>, the handler of \<^verbatim>\<open>SIGALRM\<close>; delivery consumes the pending alarm.\<close>

definition prune_latest :: "world \<Rightarrow> world" where
  "prune_latest w = w\<lparr> cached_latest := None \<rparr>"

definition sigalrm :: "world \<Rightarrow> world" where
  "sigalrm w = prune_latest (w\<lparr> alarm := None \<rparr>)"

text \<open>\<^verbatim>\<open>sorted(datasets, reverse=True)[0].ds_time\<close>; indexing an empty list raises.\<close>

definition latest_of :: "listdir_row list \<Rightarrow> py_error + datetime" where
  "latest_of datasets =
     (case sorted_reverse datasets of
        [] \<Rightarrow> Inl IndexError
      | row # _ \<Rightarrow> Inr (fst row))"

text \<open>
  \<^verbatim>\<open>valid = cached and cached.ds_time == latest and cached.directory == directory\<close>; a
  \<^verbatim>\<open>Dataset\<close> object is always true.
\<close>

definition valid_cached :: "world \<Rightarrow> datetime \<Rightarrow> string \<Rightarrow> dataset option" where
  "valid_cached w latest dir =
     (case cached_latest w of
        None \<Rightarrow> None
      | Some cached \<Rightarrow>
          if ds_time cached = latest \<and> directory cached = dir then Some cached else None)"


definition open_latest ::
  "world \<Rightarrow> string \<Rightarrow> bool \<Rightarrow> bool \<Rightarrow> world \<times> (py_error + dataset)" where
  "open_latest w dir persistent determineTime =
     (case latest_of (listdir w dir (Some [[]])) of
        Inl e \<Rightarrow> (w, Inl e)
      | Inr latest \<Rightarrow>
          (case valid_cached w latest dir of
             Some cached \<Rightarrow>
               ((if persistent then w\<lparr> alarm := Some 60 \<rparr> else w), Inr cached)
           | None \<Rightarrow>
               (case Dataset_init w latest dir False determineTime of
                  (w', Inl e) \<Rightarrow> (w', Inl e)
                | (w', Inr ds) \<Rightarrow>
                    ((if persistent then w'\<lparr> alarm := Some 60, cached_latest := Some ds \<rparr>
                      else w'),
                     Inr ds))))"

section \<open>Motion models and termination criteria\<close>

text \<open>
  A model is called with \<^verbatim>\<open>(t, lat, lng, alt)\<close> and returns \<^verbatim>\<open>(dlat, dlng, dalt)\<close>. The
  module has one global variable, \<^verbatim>\<open>descend_mark\<close> (initially \<open>-1.0\<close>), which the up/down
  model reads and assigns; a model therefore takes the value of the global and returns
  its new value with the result. Floats are modelled as reals.
\<close>

type_synonym point = "real \<times> real \<times> real \<times> real"
type_synonym vec = "real \<times> real \<times> real"
type_synonym model = "real \<Rightarrow> point \<Rightarrow> real \<times> vec"

definition descend_mark_init :: real where
  "descend_mark_init = -1"

definition make_constant_ascent :: "real \<Rightarrow> model" where
  "make_constant_ascent ascent_rate = (\<lambda>mark (t, lat, lng, alt). (mark, (0, 0, ascent_rate)))"

text \<open>
  The solar-position library: for a position and a time, the timestamp
  \<^verbatim>\<open>calendar.timegm(Sun(lat, lng).get_sunrise_time(dt.date()).timetuple())\<close> of that date's
  sunrise (and sunset), or \<open>None\<close> for \<^verbatim>\<open>SunTimeException\<close>.
\<close>

record sun_t =
  sunrise_time :: "real \<Rightarrow> real \<Rightarrow> real \<Rightarrow> real option"
  sunset_time :: "real \<Rightarrow> real \<Rightarrow> real \<Rightarrow> real option"

text \<open>The flag \<^verbatim>\<open>should_descend\<close> of \<^verbatim>\<open>up_down\<close>.\<close>

definition should_descend :: "real \<Rightarrow> real \<Rightarrow> real \<Rightarrow> bool" where
  "should_descend descent_t sunrise_t t =
     (if descent_t < sunrise_t then descent_t > 0 \<and> (t > descent_t \<and> t < sunrise_t)
      else descent_t > 0 \<and> (t > descent_t \<or> t < sunrise_t))"

definition make_ascent_descent ::
  "sun_t \<Rightarrow> real \<Rightarrow> real \<Rightarrow> real \<Rightarrow> real \<Rightarrow> real \<Rightarrow> model" where
  "make_ascent_descent sun ascent_rate float_alt descent_rate descent_before_sunset
       descent_duration =
     (\<lambda>descend_mark (t, lat, lng, alt).
        case sunrise_time sun lat lng t of
          None \<Rightarrow> (descend_mark, (0, 0, 0))
        | Some sunrise_t \<Rightarrow>
            (let descent_t =
                   (case sunset_time sun lat lng t of
                      Some sunset_t \<Rightarrow> sunset_t - descent_before_sunset
                    | None \<Rightarrow> 0)
             in if should_descend descent_t sunrise_t t then
                  (let mark' = (if descend_mark < 0 then t else descend_mark)
                   in if descent_duration \<ge> 0 \<and> t > mark' + descent_duration
                      then (mark', (0, 0, 0))
                      else (mark', (0, 0, - descent_rate)))
                else if alt < float_alt then (-1, (0, 0, ascent_rate))
                else (-1, (0, 0, 0))))"

text \<open>
  Whether a call at a point falls inside the descent window, that is, reaches the branch
  \<^verbatim>\<open>if should_descend\<close>: the sun rises on that date and the flag is set.
\<close>

definition in_descent_window :: "sun_t \<Rightarrow> real \<Rightarrow> point \<Rightarrow> bool" where
  "in_descent_window sun descent_before_sunset =
     (\<lambda>(t, lat, lng, alt).
        case sunrise_time sun lat lng t of
          None \<Rightarrow> False
        | Some sunrise_t \<Rightarrow>
            should_descend
              (case sunset_time sun lat lng t of
                 Some sunset_t \<Rightarrow> sunset_t - descent_before_sunset
               | None \<Rightarrow> 0)
              sunrise_t t)"

text \<open>
  A termination criterion returns \<^verbatim>\<open>True\<close>, \<^verbatim>\<open>False\<close> or (by falling off the end of the
  function) \<^verbatim>\<open>None\<close>: \<open>Some b\<close> is the bool \<open>b\<close>, and \<open>None\<close> is \<^verbatim>\<open>None\<close>.
\<close>

type_synonym terminator = "point \<Rightarrow> bool option"

definition truthy :: "bool option \<Rightarrow> bool" where
  "truthy r = (case r of None \<Rightarrow> False | Some b \<Rightarrow> b)"

definition make_burst_termination :: "real \<Rightarrow> terminator" where
  "make_burst_termination burst_altitude =
     (\<lambda>(t, lat, lng, alt). if alt \<ge> burst_altitude then Some True else None)"

definition sea_level_termination :: terminator where
  "sea_level_termination = (\<lambda>(t, lat, lng, alt). if alt \<le> 0 then Some True else None)"

definition make_elevation_data_termination :: "(real \<Rightarrow> real \<Rightarrow> real) \<Rightarrow> terminator" where
  "make_elevation_data_termination dataset_get =
     (\<lambda>(t, lat, lng, alt). Some (dataset_get lat lng > alt))"

definition make_time_termination :: "real \<Rightarrow> terminator" where
  "make_time_termination max_time =
     (\<lambda>(t, lat, lng, alt). if t > max_time then Some True else None)"

text \<open>
  \<^verbatim>\<open>make_linear_model\<close>: the loop over \<^verbatim>\<open>models\<close> with the accumulator
  \<^verbatim>\<open>dlat, dlng, dalt\<close>, every model called at the same point.
\<close>

fun linear_loop :: "model list \<Rightarrow> real \<Rightarrow> point \<Rightarrow> vec \<Rightarrow> real \<times> vec" where
  "linear_loop [] mark p acc = (mark, acc)"
| "linear_loop (m # ms) mark p (dlat, dlng, dalt) =
     (case m mark p of
        (mark', (d0, d1, d2)) \<Rightarrow> linear_loop ms mark' p (dlat + d0, dlng + d1, dalt + d2))"

definition make_linear_model :: "model list \<Rightarrow> model" where
  "make_linear_model models = (\<lambda>mark p. linear_loop models mark p (0, 0, 0))"

text \<open>
  \<^verbatim>\<open>any(term(t, lat, lng, alt) for term in terminators)\<close>: the first true element ends the
  iteration, and the result is a bool.
\<close>

fun any_terminators :: "terminator list \<Rightarrow> point \<Rightarrow> bool" where
  "any_terminators [] p = False"
| "any_terminators (term # rest) p = (if truthy (term p) then True else any_terminators rest p)"

definition make_any_terminator :: "terminator list \<Rightarrow> point \<Rightarrow> bool" where
  "make_any_terminator terminators = (\<lambda>p. any_terminators terminators p)"

subsection \<open>Evaluation sequences\<close>

text \<open>
  A process evaluates models one call after another; each call sees the value of
  \<^verbatim>\<open>descend_mark\<close> that the previous call left. \<open>run_calls\<close> gives the results of a
  sequence of calls. In a schedule of two models, \<open>True\<close> marks a call of the first model
  and \<open>False\<close> a call of the second; \<open>results_of_first\<close> are the results that the first
  model returned.
\<close>

fun run_calls :: "real \<Rightarrow> (model \<times> point) list \<Rightarrow> vec list" where
  "run_calls mark [] = []"
| "run_calls mark ((m, p) # cs) = (case m mark p of (mark', r) \<Rightarrow> r # run_calls mark' cs)"

definition schedule_calls :: "model \<Rightarrow> model \<Rightarrow> (bool \<times> point) list \<Rightarrow> (model \<times> point) list" where
  "schedule_calls a b sched = map (\<lambda>(first, p). (if first then a else b, p)) sched"

definition results_of_first :: "model \<Rightarrow> model \<Rightarrow> real \<Rightarrow> (bool \<times> point) list \<Rightarrow> vec list" where
  "results_of_first a b mark sched =
     map snd (filter fst (zip (map fst sched) (run_calls mark (schedule_calls a b sched))))"

definition results_alone :: "model \<Rightarrow> real \<Rightarrow> (bool \<times> point) list \<Rightarrow> vec list" where
  "results_alone a mark sched = run_calls mark (map (\<lambda>(first, p). (a, p)) (filter fst sched))"

section \<open>The layout computed by \<^verbatim>\<open>setup\<close>\<close>

lemma length_py_range: "length (py_range a b s) = nat ((b - a + s - 1) div s)"
  by (simp add: py_range_def)

lemma length_pressure: "length (sorted_reverse (pressures_pgrb2f @ pressures_pgrb2bf)) = 47"
  by (simp add: sorted_reverse_def pressures_pgrb2f_def pressures_pgrb2bf_def)

lemma axes_lens_make_axes: "axes_lens (make_axes r) = (length r, 47, 3, 361, 720)"
  by (simp add: axes_lens_def make_axes_def length_pressure length_py_range)

lemma size_of_shape_eq: "size_of_shape (s0, s1, s2, s3, s4) = 4 * s0 * s1 * s2 * s3 * s4"
  by (simp add: size_of_shape_def element_size_def)

lemma setup_cls_eq:
  "setup_cls w h =
     Inr (w\<lparr> size_cls := 4 * length (py_range 0 (py_int h + 3) 3) * 47 * 3 * 361 * 720,
             forecast_range := py_range 0 (py_int h + 3) 3,
             shape := (length (py_range 0 (py_int h + 3) 3), 47, 3, 361, 720),
             axes := make_axes (py_range 0 (py_int h + 3) 3) \<rparr>)"
  by (simp add: setup_cls_def Let_def axes_lens_make_axes size_of_shape_eq)

lemma py_int_of_int: "py_int (of_int h) = h"
  by (simp add: py_int_def)

lemma hours_len: "0 \<le> h \<Longrightarrow> 3 dvd h \<Longrightarrow> length (py_range 0 (h + 3) 3) = nat (h div 3 + 1)"
  by (auto simp add: length_py_range elim!: dvdE)

lemma hours_range_nth:
  "i < length (py_range 0 (h + 3) 3) \<Longrightarrow> py_range 0 (h + 3) 3 ! i = 3 * int i"
  by (simp add: py_range_def)

text \<open>
  Claim C6. For every forecast horizon \<open>h\<close> that is a non-negative multiple of 3,
  \<^verbatim>\<open>setup(h)\<close> returns without tripping its assertion, every axis has the length that the
  shape gives for it, the shape is \<open>(h/3 + 1, 47, 3, 361, 720)\<close>, and the size in bytes is
  four times the product of the shape.
\<close>

theorem setup_layout_invariant:
  assumes "0 \<le> h" and "3 dvd h"
  shows "\<exists>w'. setup_cls w (of_int h) = Inr w' \<and>
           length (hour (axes w')) = fst (shape w') \<and>
           length (pressure (axes w')) = fst (snd (shape w')) \<and>
           length (variable (axes w')) = fst (snd (snd (shape w'))) \<and>
           length (latitude (axes w')) = fst (snd (snd (snd (shape w')))) \<and>
           length (longitude (axes w')) = snd (snd (snd (snd (shape w')))) \<and>
           shape w' = (nat (h div 3 + 1), 47, 3, 361, 720) \<and>
           size_cls w' = 4 * (nat (h div 3 + 1) * 47 * 3 * 361 * 720)"
proof -
  let ?r = "py_range 0 (h + 3) 3"
  have len: "length ?r = nat (h div 3 + 1)"
    using assms by (rule hours_len)
  have ax: "axes_lens (make_axes ?r) = (length ?r, 47, 3, 361, 720)"
    by (rule axes_lens_make_axes)
  show ?thesis
    using len ax by (simp add: setup_cls_eq py_int_of_int axes_lens_def)
qed

text \<open>The horizon 192 of the class body: 65 hour steps and 9528667200 bytes.\<close>

theorem setup_layout_invariant_witness:
  "(0::int) \<le> 192 \<and> (3::int) dvd 192 \<and>
   (\<exists>w'. setup_cls (class_body (\<lambda>d. [])) 192 = Inr w' \<and>
      shape w' = (65, 47, 3, 361, 720) \<and> size_cls w' = 9528667200)"
proof -
  have a: "(0::int) \<le> 192" by simp
  have b: "(3::int) dvd 192" by simp
  show ?thesis
    using setup_layout_invariant [OF a b, of "class_body (\<lambda>d. [])"] by auto
qed

section \<open>Combining models and termination criteria\<close>

lemma linear_loop_acc:
  "linear_loop ms mark p (a0, a1, a2) =
     (case linear_loop ms mark p (0, 0, 0) of
        (mk, (s0, s1, s2)) \<Rightarrow> (mk, (a0 + s0, a1 + s1, a2 + s2)))"
proof (induction ms arbitrary: mark a0 a1 a2)
  case Nil
  show ?case by simp
next
  case (Cons m ms)
  obtain mk d0 d1 d2 where m: "m mark p = (mk, (d0, d1, d2))"
    by (metis prod_cases3)
  obtain mk2 s0 s1 s2 where r: "linear_loop ms mk p (0, 0, 0) = (mk2, (s0, s1, s2))"
    by (metis prod_cases3)
  have "linear_loop ms mk p (a0 + d0, a1 + d1, a2 + d2) = (mk2, (a0 + d0 + s0, a1 + d1 + s1, a2 + d2 + s2))"
    using Cons.IH [of mk "a0 + d0" "a1 + d1" "a2 + d2"] r by simp
  moreover have "linear_loop ms mk p (0 + d0, 0 + d1, 0 + d2) = (mk2, (0 + d0 + s0, 0 + d1 + s1, 0 + d2 + s2))"
    using Cons.IH [of mk "0 + d0" "0 + d1" "0 + d2"] r by simp
  ultimately show ?case using m by (simp add: add.assoc)
qed

lemma linear_model_Cons:
  "make_linear_model (m # ms) mark p =
     (case m mark p of
        (mark1, (d0, d1, d2)) \<Rightarrow>
          (case make_linear_model ms mark1 p of
             (mark2, (s0, s1, s2)) \<Rightarrow> (mark2, (d0 + s0, d1 + s1, d2 + s2))))"
proof -
  obtain mk d0 d1 d2 where m: "m mark p = (mk, (d0, d1, d2))"
    by (metis prod_cases3)
  show ?thesis
    using m linear_loop_acc [of ms mk p d0 d1 d2] by (simp add: make_linear_model_def)
qed

lemma run_calls_same_point_Cons:
  "run_calls mark (map (\<lambda>m. (m, p)) (m # ms)) =
     snd (m mark p) # run_calls (fst (m mark p)) (map (\<lambda>m. (m, p)) ms)"
  by (simp add: case_prod_beta)

lemma linear_model_sums:
  "snd (make_linear_model ms mark p) =
     (sum_list (map fst (run_calls mark (map (\<lambda>m. (m, p)) ms))),
      sum_list (map (fst \<circ> snd) (run_calls mark (map (\<lambda>m. (m, p)) ms))),
      sum_list (map (snd \<circ> snd) (run_calls mark (map (\<lambda>m. (m, p)) ms))))"
proof (induction ms arbitrary: mark)
  case Nil
  show ?case by (simp add: make_linear_model_def)
next
  case (Cons m ms)
  obtain mk d0 d1 d2 where m: "m mark p = (mk, (d0, d1, d2))"
    by (metis prod_cases3)
  obtain mk2 s0 s1 s2 where r: "make_linear_model ms mk p = (mk2, (s0, s1, s2))"
    by (metis prod_cases3)
  show ?case
    using Cons.IH [of mk] m r
    by (simp add: linear_model_Cons)
qed

text \<open>
  Claim C8. \<^verbatim>\<open>make_linear_model([])\<close> returns the zero vector; \<^verbatim>\<open>make_linear_model([a, b])\<close>
  returns the component-wise sum of what \<open>a\<close> and \<open>b\<close> return at the same point; and for
  every list of models the result is, component by component, the sum of the results of
  the models, each called at that same point (in list order, as the loop calls them).
\<close>

theorem sum_models_componentwise:
  "make_linear_model [] mark p = (mark, (0, 0, 0)) \<and>
   make_linear_model [a, b] mark p =
     (case a mark p of
        (mark1, (a0, a1, a2)) \<Rightarrow>
          (case b mark1 p of
             (mark2, (b0, b1, b2)) \<Rightarrow> (mark2, (a0 + b0, a1 + b1, a2 + b2)))) \<and>
   snd (make_linear_model ms mark p) =
     (sum_list (map fst (run_calls mark (map (\<lambda>m. (m, p)) ms))),
      sum_list (map (fst \<circ> snd) (run_calls mark (map (\<lambda>m. (m, p)) ms))),
      sum_list (map (snd \<circ> snd) (run_calls mark (map (\<lambda>m. (m, p)) ms))))"
proof -
  have e: "make_linear_model [] mark p = (mark, (0, 0, 0))"
    by (simp add: make_linear_model_def)
  have "make_linear_model [a, b] mark p =
     (case a mark p of
        (mark1, (a0, a1, a2)) \<Rightarrow>
          (case b mark1 p of
             (mark2, (b0, b1, b2)) \<Rightarrow> (mark2, (a0 + b0, a1 + b1, a2 + b2))))"
    by (simp add: make_linear_model_def split: prod.splits)
  then show ?thesis using e linear_model_sums by blast
qed

text \<open>Two constant ascents of 5 and 2 m/s add up to 7 m/s.\<close>

theorem sum_models_componentwise_witness:
  "make_linear_model [make_constant_ascent 5, make_constant_ascent 2] (-1) (0, 52, 0, 100)
     = (-1, (0, 0, 7))"
  using sum_models_componentwise [of "-1" "(0, 52, 0, 100)" "make_constant_ascent 5" "make_constant_ascent 2" "[]"]
  by (simp add: make_constant_ascent_def)

lemma any_terminators_iff: "any_terminators qs p = (\<exists>q\<in>set qs. truthy (q p))"
  by (induction qs) auto

text \<open>
  Claim C9. \<^verbatim>\<open>make_any_terminator([])\<close> is false at every point;
  \<^verbatim>\<open>make_any_terminator([q])\<close> terminates exactly where \<open>q\<close> does (it returns the truth
  value of what \<open>q\<close> returns, which for the criteria of this module is \<^verbatim>\<open>True\<close> or
  \<^verbatim>\<open>None\<close>); and in general the result is true iff some criterion of the list returns
  a true value.
\<close>

theorem any_of_spec:
  "make_any_terminator [] p = False \<and>
   make_any_terminator [q] p = truthy (q p) \<and>
   make_any_terminator qs p = (\<exists>q\<in>set qs. truthy (q p))"
  by (simp add: make_any_terminator_def any_terminators_iff)

text \<open>A burst criterion at 30000 m, above and below the threshold.\<close>

theorem any_of_spec_witness:
  "make_any_terminator [make_burst_termination 30000] (0, 52, 0, 31000) = True \<and>
   make_any_terminator [make_burst_termination 30000] (0, 52, 0, 100) = False \<and>
   make_burst_termination 30000 (0, 52, 0, 100) = None"
  using any_of_spec [of "(0, 52, 0, 31000)" "make_burst_termination 30000" "[]"]
        any_of_spec [of "(0, 52, 0, 100)" "make_burst_termination 30000" "[]"]
  by (simp add: make_burst_termination_def truthy_def)

section \<open>Rounding to a double\<close>

text \<open>
  The exponent that \<open>float_exponent\<close> computes is the right one, rounding is exact on the
  integers below \<open>2^53\<close>, and the relative error of one rounding is at most \<open>2^(-53)\<close>.
\<close>

lemma pow2_int_nat: "0 \<le> k \<Longrightarrow> (2::rat) powi k = 2 ^ nat k"
  by (simp add: power_int_def)

lemma bitlen_rat_bounds:
  assumes "0 < p"
  shows "(2::rat) powi (bitlen p - 1) \<le> of_int p \<and> of_int p < (2::rat) powi (bitlen p)"
proof -
  have b: "1 \<le> bitlen p"
    using assms bitlen_eq_zero_iff [of p] bitlen_nonneg [of p] by linarith
  have "2 ^ nat (bitlen p - 1) \<le> p \<and> p < 2 ^ nat (bitlen p)"
    using assms by (rule bitlen_bounds)
  then have "(of_int (2 ^ nat (bitlen p - 1)) :: rat) \<le> of_int p \<and>
             (of_int p :: rat) < of_int (2 ^ nat (bitlen p))"
    by (simp only: of_int_le_iff of_int_less_iff)
  then show ?thesis
    using b by (simp add: pow2_int_nat)
qed

lemma float_exponent_bounds:
  assumes "0 < x"
  shows "2 powi (float_exponent x) \<le> x \<and> x < 2 powi (float_exponent x + 1)"
proof -
  obtain p q where pq: "quotient_of x = (p, q)" by (cases "quotient_of x")
  have q: "0 < q" using pq by (rule quotient_of_denom_pos)
  have x: "x = of_int p / of_int q" using pq by (rule quotient_of_div)
  have p: "0 < p" using assms q x by (simp add: zero_less_divide_iff)
  let ?d = "bitlen p - bitlen q"
  note bp = bitlen_rat_bounds [OF p]
  note bq = bitlen_rat_bounds [OF q]
  have qpos: "(0::rat) < of_int q" using q by simp
  have pw: "(0::rat) < 2 powi k" for k by simp
  have up: "x < 2 powi (?d + 1)"
  proof -
    have "x < 2 powi (bitlen p) / 2 powi (bitlen q - 1)"
      unfolding x using bp bq qpos p pw [of "bitlen q - 1"]
      by (intro frac_less) (auto intro: less_imp_le)
    also have "\<dots> = 2 powi (bitlen p - (bitlen q - 1))"
      by (simp add: power_int_diff)
    finally show ?thesis by (simp add: algebra_simps)
  qed
  have lo: "2 powi (?d - 1) < x"
  proof -
    have "2 powi (bitlen p - 1) / 2 powi (bitlen q) < x"
      unfolding x using bp bq qpos p pw [of "bitlen p - 1"]
      by (intro frac_less2) (auto intro: less_imp_le)
    moreover have "2 powi (bitlen p - 1) / 2 powi (bitlen q) = (2::rat) powi (bitlen p - 1 - bitlen q)"
      by (simp add: power_int_diff)
    ultimately show ?thesis by (simp add: algebra_simps)
  qed
  show ?thesis
  proof (cases "2 powi ?d \<le> x")
    case True
    then show ?thesis using up pq by (simp add: float_exponent_def)
  next
    case False
    then have "float_exponent x = ?d - 1" using pq by (simp add: float_exponent_def)
    then show ?thesis using lo False by (simp add: less_imp_le)
  qed
qed


lemma pow2_less_imp_less: "(2::rat) powi a < 2 powi b \<Longrightarrow> a < b"
proof (rule ccontr)
  assume l: "(2::rat) powi a < 2 powi b" and "\<not> a < b"
  then have "b \<le> a" by simp
  then have "(2::rat) powi b \<le> 2 powi a" by (intro power_int_increasing) simp_all
  with l show False by simp
qed

lemma float_exponent_unique:
  assumes "0 < x" and "2 powi e \<le> x" and "x < 2 powi (e + 1)"
  shows "float_exponent x = e"
proof -
  note b = float_exponent_bounds [OF assms(1)]
  have "(2::rat) powi e < 2 powi (float_exponent x + 1)"
    using assms(2) b by (meson le_less_trans)
  then have 1: "e < float_exponent x + 1" by (rule pow2_less_imp_less)
  have "(2::rat) powi (float_exponent x) < 2 powi (e + 1)"
    using assms(3) b by (meson le_less_trans)
  then have 2: "float_exponent x < e + 1" by (rule pow2_less_imp_less)
  show ?thesis using 1 2 by simp
qed

lemma round_half_even_of_int: "round_half_even (of_int z) = z"
  by (simp add: round_half_even_def)

lemma round_half_even_error: "\<bar>of_int (round_half_even q) - q\<bar> \<le> 1 / 2"
proof -
  have "of_int \<lfloor>q\<rfloor> \<le> q" "q < of_int \<lfloor>q\<rfloor> + 1" by linarith+
  then show ?thesis
    by (auto simp: round_half_even_def Let_def abs_le_iff)
qed

lemma fl_pos_eval:
  assumes "0 < x" and "2 powi e \<le> x" and "x < 2 powi (e + 1)"
  shows "fl x = of_int (round_half_even (x / 2 powi (e - 52))) * 2 powi (e - 52)"
  using assms float_exponent_unique [OF assms] by (simp add: fl_def Let_def)

lemma fl_minus: "fl (- x) = - fl x"
  by (simp add: fl_def Let_def sgn_minus)

lemma fl_zero: "fl 0 = 0"
  by (simp add: fl_def)

lemma fl_nat_exact:
  assumes "n < 2 ^ 53"
  shows "fl (of_nat n) = of_nat n"
proof (cases "n = 0")
  case True
  then show ?thesis by (simp add: fl_zero)
next
  case False
  let ?x = "of_nat n :: rat"
  let ?e = "float_exponent ?x"
  have pos: "0 < ?x" using False by simp
  note b = float_exponent_bounds [OF pos]
  have "?x < 2 powi 53" using assms
    by (metis of_nat_less_iff of_nat_numeral of_nat_power power_int_numeral)
  then have "(2::rat) powi ?e < 2 powi 53" using b by (meson le_less_trans)
  then have e: "?e \<le> 52" using pow2_less_imp_less by fastforce
  have u: "(2::rat) powi (?e - 52) = 1 / 2 ^ nat (52 - ?e)"
  proof -
    have "?e - 52 = - int (nat (52 - ?e))" using e by simp
    then show ?thesis by (simp only: power_int_minus_divide power_int_of_nat)
  qed
  have "?x / 2 powi (?e - 52) = of_int (int n * 2 ^ nat (52 - ?e))"
    by (simp add: u)
  then have "round_half_even (?x / 2 powi (?e - 52)) = int n * 2 ^ nat (52 - ?e)"
    by (simp only: round_half_even_of_int)
  then have "fl ?x = of_int (int n * 2 ^ nat (52 - ?e)) * (1 / 2 ^ nat (52 - ?e))"
    using pos by (simp add: fl_def Let_def u)
  then show ?thesis by simp
qed

lemma fl_int_exact:
  assumes "\<bar>z\<bar> < 2 ^ 53"
  shows "fl (of_int z) = of_int z"
proof (cases "0 \<le> z")
  case True
  then have "nat z < 2 ^ 53" using assms by (simp add: nat_less_iff)
  then have "fl (of_nat (nat z)) = of_nat (nat z)" by (rule fl_nat_exact)
  then show ?thesis using True by simp
next
  case False
  then have "nat (- z) < 2 ^ 53" using assms by (simp add: nat_less_iff)
  then have "fl (of_nat (nat (- z))) = of_nat (nat (- z))" by (rule fl_nat_exact)
  then have "fl (- of_int z) = - of_int z" using False by simp
  then show ?thesis by (simp add: fl_minus)
qed

lemma fl_error_pos:
  assumes "0 < x"
  shows "\<bar>fl x - x\<bar> \<le> x / 2 ^ 53"
proof -
  let ?e = "float_exponent x"
  let ?u = "(2::rat) powi (?e - 52)"
  note b = float_exponent_bounds [OF assms]
  have upos: "0 < ?u" by simp
  have f: "fl x = of_int (round_half_even (x / ?u)) * ?u"
    using assms by (simp add: fl_def Let_def)
  have "fl x - x = (of_int (round_half_even (x / ?u)) - x / ?u) * ?u"
    using upos by (simp add: f algebra_simps)
  then have "\<bar>fl x - x\<bar> = \<bar>of_int (round_half_even (x / ?u)) - x / ?u\<bar> * ?u"
    using upos by (simp add: abs_mult)
  also have "\<dots> \<le> (1 / 2) * ?u"
    using round_half_even_error [of "x / ?u"] upos by (intro mult_right_mono) simp_all
  also have "\<dots> = 2 powi ?e / 2 ^ 53"
  proof -
    have "(2::rat) powi (?e - 52) = 2 powi ?e / 2 powi 52"
      by (simp add: power_int_diff)
    then show ?thesis by simp
  qed
  also have "\<dots> \<le> x / 2 ^ 53"
    using b by (simp add: divide_right_mono)
  finally show ?thesis .
qed

lemma fl_error: "\<bar>fl x - x\<bar> \<le> \<bar>x\<bar> / 2 ^ 53"
proof (cases "0 < x")
  case True
  then show ?thesis using fl_error_pos [of x] by simp
next
  case False
  show ?thesis
  proof (cases "x = 0")
    case True
    then show ?thesis by (simp add: fl_zero)
  next
    case False
    with \<open>\<not> 0 < x\<close> have n: "0 < - x" by simp
    have "\<bar>fl x - x\<bar> = \<bar>fl (- x) - (- x)\<bar>"
      by (simp add: fl_minus abs_minus_commute)
    then show ?thesis using fl_error_pos [OF n] n by simp
  qed
qed

section \<open>Opening an existing dataset\<close>

text \<open>
  The theorems of this section are about a state in which the last four extents of the
  class's shape are 47, 3, 361 and 720, as the class body sets them and every operation
  keeps them (\<open>class_body_wf\<close>, \<open>Dataset_init_wf\<close>, \<open>open_latest_wf\<close> below), and about
  files smaller than \<open>2^63\<close> bytes, the bound of a file offset.
\<close>

lemma no_overflow:
  assumes "sz < 2 ^ 63"
  shows "\<not> 2 ^ 1024 - 2 ^ 970 \<le> rat_of_nat sz / rat_of_nat element_size"
proof -
  have "rat_of_nat sz < rat_of_nat (2 ^ 63)"
    using assms by (simp only: of_nat_less_iff)
  then have "rat_of_nat sz / 4 < 2 ^ 63" by simp
  moreover have "(2::rat) ^ 63 \<le> 2 ^ 1024 - 2 ^ 970" by simp
  ultimately show ?thesis by (simp add: element_size_def)
qed

lemma hour_steps_wf:
  assumes "snd (shape w) = (47, 3, 361, 720)" and "sz < 2 ^ 63"
  shows "hour_steps w sz = Inr (fl (fl (fl (fl (fl (of_nat sz / 4) / 47) / 3) / 361) / 720))"
proof -
  obtain s0 where s: "shape w = (s0, 47, 3, 361, 720)"
    using assms(1) by (cases "shape w") simp
  have e: "element_size \<noteq> 0" by (simp add: element_size_def)
  show ?thesis
    unfolding hour_steps_def s using no_overflow [OF assms(2)] e
    by (simp add: element_size_def)
qed

lemma mmap_whole_cases:
  "map_sum id f (mmap_whole sz wr) =
     (if sz = 0 then Inl ValueError_mmap_empty
      else Inr (f \<lparr> map_length = sz, map_writable = wr \<rparr>))"
  by (simp add: mmap_whole_def)

lemma Dataset_init_derive:
  assumes "snd (shape w) = (47, 3, 361, 720)"
    and "map_of (fs w dir) (strftime_YmdH t) = Some sz"
    and "sz < 2 ^ 63"
    and "setup_cls (w\<lparr> next_obj := next_obj w + 1 \<rparr>) (spec_horizon_double sz) = Inr w1"
  shows "Dataset_init w t dir False True =
           (w1,
            if sz \<noteq> size_cls w1 then Inl (ValueError_size (size_cls w1) sz)
            else if sz = 0 then Inl ValueError_mmap_empty
            else Inr \<lparr> obj_id = next_obj w, directory = dir, ds_time = t, new = False,
                       fn = filename t dir [],
                       array = \<lparr> map_length = sz, map_writable = False \<rparr> \<rparr>)"
proof -
  have h: "hour_steps (w\<lparr> next_obj := next_obj w + 1 \<rparr>) sz
             = Inr (fl (fl (fl (fl (fl (of_nat sz / 4) / 47) / 3) / 361) / 720))"
    using assms(1,3) by (intro hour_steps_wf) simp_all
  show ?thesis
    using assms(2,4) h
    by (simp add: Dataset_init_def Let_def spec_horizon_double_def mmap_whole_cases)
qed

lemma Dataset_init_fixed:
  assumes "map_of (fs w dir) (strftime_YmdH t) = Some sz"
  shows "Dataset_init w t dir False False =
           (w\<lparr> next_obj := next_obj w + 1 \<rparr>,
            if sz \<noteq> size_cls w then Inl (ValueError_size (size_cls w) sz)
            else if sz = 0 then Inl ValueError_mmap_empty
            else Inr \<lparr> obj_id = next_obj w, directory = dir, ds_time = t, new = False,
                       fn = filename t dir [],
                       array = \<lparr> map_length = sz, map_writable = False \<rparr> \<rparr>)"
  using assms
  by (simp add: Dataset_init_def Let_def mmap_whole_cases)


lemma horizon_double_whole:
  assumes "146594880 * k < (2::nat) ^ 53"
  shows "spec_horizon_double (146594880 * k) = (of_nat k - 1) * 3"
proof -
  have b: "36648720 * k < (2::nat) ^ 53" "779760 * k < (2::nat) ^ 53" "259920 * k < (2::nat) ^ 53"
    "720 * k < (2::nat) ^ 53" "k < (2::nat) ^ 53" "3 * k < (2::nat) ^ 53"
    using assms by simp_all
  have 1: "fl (rat_of_nat (146594880 * k) / 4) = of_nat (36648720 * k)"
  proof -
    have "rat_of_nat (146594880 * k) / 4 = of_nat (36648720 * k)" by simp
    then show ?thesis using fl_nat_exact [OF b(1)] by simp
  qed
  have 2: "fl (rat_of_nat (36648720 * k) / 47) = of_nat (779760 * k)"
  proof -
    have "rat_of_nat (36648720 * k) / 47 = of_nat (779760 * k)" by simp
    then show ?thesis using fl_nat_exact [OF b(2)] by simp
  qed
  have 3: "fl (rat_of_nat (779760 * k) / 3) = of_nat (259920 * k)"
  proof -
    have "rat_of_nat (779760 * k) / 3 = of_nat (259920 * k)" by simp
    then show ?thesis using fl_nat_exact [OF b(3)] by simp
  qed
  have 4: "fl (rat_of_nat (259920 * k) / 361) = of_nat (720 * k)"
  proof -
    have "rat_of_nat (259920 * k) / 361 = of_nat (720 * k)" by simp
    then show ?thesis using fl_nat_exact [OF b(4)] by simp
  qed
  have 5: "fl (rat_of_nat (720 * k) / 720) = of_nat k"
  proof -
    have "rat_of_nat (720 * k) / 720 = of_nat k" by simp
    then show ?thesis using fl_nat_exact [OF b(5)] by simp
  qed
  have 6: "fl (rat_of_nat k - 1) = of_int (int k - 1)"
  proof -
    have "\<bar>int k - 1\<bar> < 2 ^ 53" using b(5) by (simp add: abs_less_iff)
    then have "fl (of_int (int k - 1)) = of_int (int k - 1)" by (rule fl_int_exact)
    then show ?thesis by simp
  qed
  have 7: "fl (rat_of_int (int k - 1) * 3) = of_int ((int k - 1) * 3)"
  proof -
    have "int (3 * k) < 2 ^ 53" using b(6) by (metis of_nat_less_iff of_nat_numeral of_nat_power)
    then have "\<bar>(int k - 1) * 3\<bar> < 2 ^ 53" by (simp add: abs_less_iff)
    then have "fl (of_int ((int k - 1) * 3)) = of_int ((int k - 1) * 3)" by (rule fl_int_exact)
    then show ?thesis by simp
  qed
  show ?thesis
    unfolding spec_horizon_double_def 1 2 3 4 5 6 7 by simp
qed

lemma fl_numeral_exact:
  assumes "(numeral n :: nat) < 2 ^ 53"
  shows "fl (numeral n) = numeral n"
  using fl_nat_exact [OF assms] by simp

lemma fl_third_1: "fl (48864960) = 48864960" by (rule fl_numeral_exact) simp
lemma fl_third_2: "fl (1039680) = 1039680" by (rule fl_numeral_exact) simp
lemma fl_third_3: "fl (346560) = 346560" by (rule fl_numeral_exact) simp
lemma fl_third_4: "fl (960) = 960" by (rule fl_numeral_exact) simp
lemma fl_third_5: "fl (4 / 3) = 6004799503160661 / 4503599627370496" by code_simp
lemma fl_third_6: "fl (1501199875790165 / 4503599627370496) = 1501199875790165 / 4503599627370496"
  by code_simp
lemma fl_third_7: "fl (4503599627370495 / 4503599627370496) = 4503599627370495 / 4503599627370496"
  by code_simp

lemma horizon_double_third: "spec_horizon_double 195459840 = 4503599627370495 / 4503599627370496"
proof -
  have "spec_horizon_double 195459840
          = fl (fl (fl (fl (fl (fl (fl (48864960) / 47) / 3) / 361) / 720) - 1) * 3)"
    by (simp add: spec_horizon_double_def)
  also have "\<dots> = fl (fl (fl (fl (fl (fl (1039680) / 3) / 361) / 720) - 1) * 3)"
    by (simp add: fl_third_1)
  also have "\<dots> = fl (fl (fl (fl (fl (346560) / 361) / 720) - 1) * 3)"
    by (simp add: fl_third_2)
  also have "\<dots> = fl (fl (fl (fl (960) / 720) - 1) * 3)"
    by (simp add: fl_third_3)
  also have "\<dots> = fl (fl (fl (4 / 3) - 1) * 3)"
    by (simp add: fl_third_4)
  also have "\<dots> = fl (fl (1501199875790165 / 4503599627370496) * 3)"
    by (simp add: fl_third_5)
  also have "\<dots> = fl (4503599627370495 / 4503599627370496)"
    by (simp add: fl_third_6)
  finally show ?thesis by (simp add: fl_third_7)
qed

lemma fl_error_le:
  assumes "\<bar>x\<bar> \<le> B"
  shows "\<bar>fl x - x\<bar> \<le> B / 2 ^ 53"
proof -
  have "\<bar>x\<bar> / 2 ^ 53 \<le> B / 2 ^ 53"
    using assms by (intro divide_right_mono) simp_all
  then show ?thesis using fl_error [of x] by (rule order_trans [rotated])
qed

lemma fl_div_step:
  fixes a A n k :: rat
  assumes A: "0 \<le> A" and n: "0 < n" and k: "0 \<le> k" "k \<le> 2 ^ 53"
    and e: "\<bar>a - A\<bar> \<le> k * A / 2 ^ 53"
  shows "\<bar>fl (a / n) - A / n\<bar> \<le> (k + 2) * (A / n) / 2 ^ 53"
proof -
  define B where "B = A / n"
  have B: "0 \<le> B" using A n by (simp add: B_def)
  have "k * A \<le> 2 ^ 53 * A" using k A by (intro mult_right_mono) simp_all
  then have "k * A / 2 ^ 53 \<le> A" by (simp add: field_simps)
  then have "\<bar>a - A\<bar> \<le> A" using e by (rule order_trans [rotated])
  then have "\<bar>a\<bar> \<le> 2 * A" by linarith
  then have "\<bar>a\<bar> / n \<le> 2 * A / n"
    using n by (intro divide_right_mono) simp_all
  then have "\<bar>a / n\<bar> \<le> 2 * B"
    using n by (simp add: B_def)
  then have 1: "\<bar>fl (a / n) - a / n\<bar> \<le> 2 * B / 2 ^ 53"
    by (rule fl_error_le)
  have "\<bar>a / n - A / n\<bar> = \<bar>a - A\<bar> / n"
    using n by (simp add: diff_divide_distrib [symmetric])
  also have "\<dots> \<le> (k * A / 2 ^ 53) / n"
    using e n by (intro divide_right_mono) simp_all
  also have "\<dots> = k * B / 2 ^ 53"
    by (simp add: B_def)
  finally have 2: "\<bar>a / n - B\<bar> \<le> k * B / 2 ^ 53"
    by (simp add: B_def)
  have "\<bar>fl (a / n) - B\<bar> \<le> \<bar>fl (a / n) - a / n\<bar> + \<bar>a / n - B\<bar>"
    by linarith
  also have "\<dots> \<le> 2 * B / 2 ^ 53 + k * B / 2 ^ 53"
    using 1 2 by (rule add_mono)
  also have "\<dots> = (k + 2) * B / 2 ^ 53"
    by (simp add: algebra_simps add_divide_distrib)
  finally show ?thesis by (simp add: B_def)
qed

lemma horizon_double_error:
  "\<bar>spec_horizon_double sz - spec_forecast_horizon_hours sz\<bar>
     \<le> (spec_hour_steps sz + 1) / 2 ^ 47"
proof -
  define s where "s = rat_of_nat sz"
  define T where "T = spec_hour_steps sz"
  define a1 where "a1 = fl (s / 4)"
  define a2 where "a2 = fl (a1 / 47)"
  define a3 where "a3 = fl (a2 / 3)"
  define a4 where "a4 = fl (a3 / 361)"
  define a5 where "a5 = fl (a4 / 720)"
  define d where "d = fl (a5 - 1)"
  define h where "h = fl (d * 3)"
  have s0: "0 \<le> s" by (simp add: s_def)
  have T: "0 \<le> T" by (simp add: T_def spec_hour_steps_def)
  have e0: "\<bar>s - s\<bar> \<le> 0 * s / 2 ^ 53" by simp
  have e1: "\<bar>a1 - s / 4\<bar> \<le> 2 * (s / 4) / 2 ^ 53"
    unfolding a1_def using fl_div_step [OF s0 _ _ _ e0, of 4] by simp
  have e2: "\<bar>a2 - s / 4 / 47\<bar> \<le> 4 * (s / 4 / 47) / 2 ^ 53"
    unfolding a2_def using fl_div_step [OF _ _ _ _ e1, of 47] s0 by simp
  have e3: "\<bar>a3 - s / 4 / 47 / 3\<bar> \<le> 6 * (s / 4 / 47 / 3) / 2 ^ 53"
    unfolding a3_def using fl_div_step [OF _ _ _ _ e2, of 3] s0 by simp
  have e4: "\<bar>a4 - s / 4 / 47 / 3 / 361\<bar> \<le> 8 * (s / 4 / 47 / 3 / 361) / 2 ^ 53"
    unfolding a4_def using fl_div_step [OF _ _ _ _ e3, of 361] s0 by simp
  have e5': "\<bar>a5 - s / 4 / 47 / 3 / 361 / 720\<bar>
               \<le> 10 * (s / 4 / 47 / 3 / 361 / 720) / 2 ^ 53"
    unfolding a5_def using fl_div_step [OF _ _ _ _ e4, of 720] s0 by simp
  have Teq: "s / 4 / 47 / 3 / 361 / 720 = T" by (simp add: T_def s_def spec_hour_steps_def)
  have e5: "\<bar>a5 - T\<bar> \<le> 10 * T / 2 ^ 53"
    using e5' unfolding Teq .
  have "10 * T / 2 ^ 53 \<le> T" using T by simp
  then have e5T: "\<bar>a5 - T\<bar> \<le> T" using e5 by (rule order_trans [rotated])
  have "\<bar>a5 - 1\<bar> \<le> 2 * (T + 1)" using e5T T by (auto simp: abs_le_iff)
  then have d1: "\<bar>d - (a5 - 1)\<bar> \<le> 2 * (T + 1) / 2 ^ 53"
    unfolding d_def by (rule fl_error_le)
  have "10 * T / 2 ^ 53 \<le> 10 * (T + 1) / 2 ^ 53" using T by simp
  then have e5'': "\<bar>a5 - T\<bar> \<le> 10 * (T + 1) / 2 ^ 53" using e5 by (rule order_trans [rotated])
  define U where "U = (T + 1) / 2 ^ 53"
  have U: "0 \<le> U" "U * 2 ^ 53 = T + 1" using T by (simp_all add: U_def)
  have d1U: "\<bar>d - (a5 - 1)\<bar> \<le> 2 * U" using d1 by (simp add: U_def)
  have e5U: "\<bar>a5 - T\<bar> \<le> 10 * U" using e5'' by (simp add: U_def)
  have d2: "\<bar>d - (T - 1)\<bar> \<le> 12 * U" using d1U e5U by (auto simp: abs_le_iff)
  have "12 * U \<le> U * 2 ^ 53" using U(1) by simp
  then have "12 * U \<le> T + 1" using U(2) by simp
  then have "\<bar>d\<bar> \<le> 2 * (T + 1)" using d2 T by (auto simp: abs_le_iff)
  then have "\<bar>d * 3\<bar> \<le> 6 * (T + 1)" by (simp add: abs_mult)
  then have "\<bar>h - d * 3\<bar> \<le> 6 * (T + 1) / 2 ^ 53"
    unfolding h_def by (rule fl_error_le)
  then have h1: "\<bar>h - d * 3\<bar> \<le> 6 * U" by (simp add: U_def)
  have "\<bar>h - (T - 1) * 3\<bar> \<le> 42 * U" using h1 d2 by (auto simp: abs_le_iff)
  also have "\<dots> \<le> 64 * U" using U(1) by simp
  also have "\<dots> = (T + 1) / 2 ^ 47" by (simp add: U_def)
  finally show ?thesis
    by (simp add: spec_horizon_double_def spec_forecast_horizon_hours_def
        h_def d_def a5_def a4_def a3_def a2_def a1_def s_def T_def)
qed

lemma make_axes_spec: "make_axes r = spec_axes r"
proof -
  have p: "sorted_reverse (pressures_pgrb2f @ pressures_pgrb2bf) = pressure (spec_axes r)"
    by (simp add: sorted_reverse_def pressures_pgrb2f_def pressures_pgrb2bf_def spec_axes_def)
  have la: "map (\<lambda>x. rat_of_int x / 2) (py_range (-180) (180 + 1) 1)
              = map (\<lambda>i. - 90 + rat_of_nat i / 2) [0..<361]"
    by (simp add: py_range_def add_divide_distrib)
  have lo: "map (\<lambda>x. rat_of_int x / 2) (py_range 0 720 1)
              = map (\<lambda>i. rat_of_nat i / 2) [0..<720]"
    by (simp add: py_range_def)
  show ?thesis
    unfolding make_axes_def la lo p by (simp add: spec_axes_def)
qed

lemma py_int_steps: "py_int ((of_nat k - 1) * 3) = (int k - 1) * 3"
proof -
  have "(of_nat k - 1) * 3 = (of_int ((int k - 1) * 3) :: rat)" by simp
  then show ?thesis by (simp only: py_int_of_int)
qed

lemma range_steps: "py_range 0 ((int k - 1) * 3 + 3) 3 = map (\<lambda>i. 3 * int i) [0..<k]"
  by (simp add: py_range_def)

lemma range_whole:
  assumes "146594880 * k < (2::nat) ^ 53"
  shows "py_range 0 (py_int (spec_horizon_double (146594880 * k)) + 3) 3
           = map (\<lambda>i. 3 * int i) [0..<k]"
  by (simp only: horizon_double_whole [OF assms] py_int_steps range_steps)

lemma range_third:
  "py_range 0 (py_int (spec_horizon_double 195459840) + 3) 3 = [0]"
proof -
  have "py_int (spec_horizon_double 195459840) = 0"
    by (simp add: horizon_double_third py_int_def floor_eq_iff)
  then show ?thesis by (simp add: py_range_def)
qed

lemma setup_cls_spec:
  "setup_cls w h =
     Inr (w\<lparr> size_cls := 4 * length (py_range 0 (py_int h + 3) 3) * 47 * 3 * 361 * 720,
             forecast_range := py_range 0 (py_int h + 3) 3,
             shape := (length (py_range 0 (py_int h + 3) 3), 47, 3, 361, 720),
             axes := spec_axes (py_range 0 (py_int h + 3) 3) \<rparr>)"
  by (simp add: setup_cls_eq make_axes_spec)

text \<open>
  The last four extents of the shape are 47, 3, 361 and 720 in every state the module can
  reach: the class body sets them, and every operation keeps them.
\<close>

lemma class_body_wf: "snd (shape (class_body files)) = (47, 3, 361, 720)"
  by (simp add: class_body_def Let_def)

lemma class_body_assertion: "shape (class_body files) = axes_lens (axes (class_body files))"
  by (simp add: class_body_def Let_def axes_lens_make_axes)

lemma class_body_size: "size_cls (class_body files) = 9528667200"
  by (simp add: class_body_def Let_def size_of_shape_eq length_py_range)

lemma setup_cls_wf: "setup_cls w h = Inr w' \<Longrightarrow> snd (shape w') = (47, 3, 361, 720)"
  by (auto simp: setup_cls_eq)

lemma Dataset_init_wf:
  "snd (shape w) = (47, 3, 361, 720) \<Longrightarrow>
     snd (shape (fst (Dataset_init w t dir n dT))) = (47, 3, 361, 720)"
  by (auto simp: Dataset_init_def Let_def setup_cls_eq split: option.splits sum.splits)

lemma open_latest_wf:
  "snd (shape w) = (47, 3, 361, 720) \<Longrightarrow>
     snd (shape (fst (open_latest w dir p dT))) = (47, 3, 361, 720)"
proof -
  assume a: "snd (shape w) = (47, 3, 361, 720)"
  show ?thesis
  proof (cases "latest_of (listdir w dir (Some [[]]))")
    case (Inl e)
    then show ?thesis using a by (simp add: open_latest_def)
  next
    case (Inr latest)
    obtain w2 r2 where D: "Dataset_init w latest dir False dT = (w2, r2)"
      by (cases "Dataset_init w latest dir False dT")
    have "snd (shape w2) = (47, 3, 361, 720)"
      using Dataset_init_wf [OF a, of latest dir False dT] D by simp
    then show ?thesis
      using a Inr D by (cases "valid_cached w latest dir"; cases r2) (simp_all add: open_latest_def)
  qed
qed

lemma sigalrm_wf: "snd (shape (sigalrm w)) = snd (shape w)"
  by (simp add: sigalrm_def prune_latest_def)

lemma strftime_2014020100: "strftime_YmdH (2014, 2, 1, 0, 0, 0, 0) = ''2014020100''"
  by (simp add: strftime_YmdH_def year_digits_def digit_char_def)

lemma strftime_2014020103: "strftime_YmdH (2014, 2, 1, 3, 0, 0, 0) = ''2014020103''"
  by (simp add: strftime_YmdH_def year_digits_def digit_char_def)

lemma strftime_2014020106: "strftime_YmdH (2014, 2, 1, 6, 0, 0, 0) = ''2014020106''"
  by (simp add: strftime_YmdH_def year_digits_def digit_char_def)

text \<open>
  Claim C2. Opening an existing file of \<open>sz\<close> bytes with \<^verbatim>\<open>determineTime\<close> true calls
  \<^verbatim>\<open>setup\<close> with the specification's horizon \<open>(sz / (4 * 47 * 3 * 361 * 720) - 1) * 3\<close> as
  the program's arithmetic evaluates it, in doubles; that value differs from the exact
  one by at most \<open>(hour_steps + 1) / 2^47\<close>. The class's forecast range, shape, axes and size
  are the ones \<^verbatim>\<open>setup\<close> derives from it: the hours \<^verbatim>\<open>range(0, int(horizon) + 3, 3)\<close>, the
  fixed pressure, variable, latitude and longitude axes, and four bytes per cell. For a
  file of \<open>k\<close> whole hour steps the computation is exact: the horizon is \<open>(k - 1) * 3\<close>, the
  hours are \<open>0, 3, ..., 3 (k - 1)\<close> and the shape is \<open>(k, 47, 3, 361, 720)\<close>; in particular a
  file sized for 192 hours opens with the shape \<open>(65, 47, 3, 361, 720)\<close> and the size
  \<open>4 * 65 * 47 * 3 * 361 * 720\<close>. A file of 195459840 bytes (one hour step and a third)
  shows the rounding: the double horizon is \<open>1 - 2^(-52)\<close>, \<^verbatim>\<open>int\<close> truncates it to 0, and
  the class is left with one hour step. File sizes are offsets of the operating system,
  below \<open>2^63\<close>.
\<close>

theorem derive_horizon_from_size:
  assumes "snd (shape w) = (47, 3, 361, 720)"
    and "map_of (fs w dir) (strftime_YmdH t) = Some sz"
    and "sz < 2 ^ 63"
  shows "setup_cls (w\<lparr> next_obj := next_obj w + 1 \<rparr>) (spec_horizon_double sz)
           = Inr (fst (Dataset_init w t dir False True)) \<and>
         \<bar>spec_horizon_double sz - spec_forecast_horizon_hours sz\<bar>
           \<le> (spec_hour_steps sz + 1) / 2 ^ 47 \<and>
         forecast_range (fst (Dataset_init w t dir False True))
           = py_range 0 (py_int (spec_horizon_double sz) + 3) 3 \<and>
         shape (fst (Dataset_init w t dir False True))
           = (length (py_range 0 (py_int (spec_horizon_double sz) + 3) 3), 47, 3, 361, 720) \<and>
         axes (fst (Dataset_init w t dir False True))
           = spec_axes (py_range 0 (py_int (spec_horizon_double sz) + 3) 3) \<and>
         size_cls (fst (Dataset_init w t dir False True))
           = 4 * length (py_range 0 (py_int (spec_horizon_double sz) + 3) 3) * 47 * 3 * 361 * 720 \<and>
         (\<forall>k. sz = 4 * k * 47 * 3 * 361 * 720 \<and> sz < 2 ^ 53 \<longrightarrow>
            spec_horizon_double sz = spec_forecast_horizon_hours sz \<and>
            spec_forecast_horizon_hours sz = (of_nat k - 1) * 3 \<and>
            forecast_range (fst (Dataset_init w t dir False True)) = map (\<lambda>i. 3 * int i) [0..<k] \<and>
            axes (fst (Dataset_init w t dir False True))
              = spec_axes (map (\<lambda>i. 3 * int i) [0..<k]) \<and>
            shape (fst (Dataset_init w t dir False True)) = (k, 47, 3, 361, 720) \<and>
            forecast_hours (fst (Dataset_init w t dir False True)) = (int k - 1) * 3 \<and>
            size_cls (fst (Dataset_init w t dir False True)) = sz) \<and>
         (sz = 4 * 65 * 47 * 3 * 361 * 720 \<longrightarrow>
            shape (fst (Dataset_init w t dir False True)) = (65, 47, 3, 361, 720) \<and>
            size_cls (fst (Dataset_init w t dir False True)) = 4 * 65 * 47 * 3 * 361 * 720 \<and>
            snd (Dataset_init w t dir False True) =
              Inr \<lparr> obj_id = next_obj w, directory = dir, ds_time = t, new = False,
                    fn = filename t dir [],
                    array = \<lparr> map_length = sz, map_writable = False \<rparr> \<rparr>) \<and>
         (sz = 195459840 \<longrightarrow>
            forecast_range (fst (Dataset_init w t dir False True)) = [0] \<and>
            shape (fst (Dataset_init w t dir False True)) = (1, 47, 3, 361, 720) \<and>
            size_cls (fst (Dataset_init w t dir False True)) = 146594880 \<and>
            snd (Dataset_init w t dir False True) = Inl (ValueError_size 146594880 195459840))"
proof -
  let ?B = "w\<lparr> next_obj := next_obj w + 1 \<rparr>"
  let ?h = "spec_horizon_double sz"
  let ?r = "py_range 0 (py_int ?h + 3) 3"
  let ?C = "?B\<lparr> size_cls := 4 * length ?r * 47 * 3 * 361 * 720,
                  forecast_range := ?r,
                  shape := (length ?r, 47, 3, 361, 720),
                  axes := spec_axes ?r \<rparr>"
  let ?D = "Dataset_init w t dir False True"
  have s: "setup_cls ?B ?h = Inr ?C"
    by (rule setup_cls_spec)
  note D = Dataset_init_derive [OF assms s]
  have f: "fst ?D = ?C"
    by (simp add: D)
  have c1: "setup_cls ?B ?h = Inr (fst ?D)"
    using s f by simp
  have c1b: "\<bar>?h - spec_forecast_horizon_hours sz\<bar> \<le> (spec_hour_steps sz + 1) / 2 ^ 47"
    by (rule horizon_double_error)
  have c2: "forecast_range (fst ?D) = ?r"
    by (simp add: f)
  have c3: "shape (fst ?D) = (length ?r, 47, 3, 361, 720)"
    by (simp add: f)
  have c4: "axes (fst ?D) = spec_axes ?r"
    by (simp add: f)
  have c5: "size_cls (fst ?D) = 4 * length ?r * 47 * 3 * 361 * 720"
    by (simp add: f)
  have mult: "?h = spec_forecast_horizon_hours sz \<and>
              spec_forecast_horizon_hours sz = (of_nat k - 1) * 3 \<and>
              forecast_range (fst ?D) = map (\<lambda>i. 3 * int i) [0..<k] \<and>
              axes (fst ?D) = spec_axes (map (\<lambda>i. 3 * int i) [0..<k]) \<and>
              shape (fst ?D) = (k, 47, 3, 361, 720) \<and>
              forecast_hours (fst ?D) = (int k - 1) * 3 \<and>
              size_cls (fst ?D) = sz"
    if k: "sz = 4 * k * 47 * 3 * 361 * 720 \<and> sz < 2 ^ 53" for k
  proof -
    have sk: "sz = 146594880 * k" using k by simp
    have b: "146594880 * k < (2::nat) ^ 53" using k sk by simp
    have h: "?h = (of_nat k - 1) * 3"
      unfolding sk by (rule horizon_double_whole [OF b])
    have e: "spec_forecast_horizon_hours sz = (of_nat k - 1) * 3"
      by (simp add: sk spec_forecast_horizon_hours_def spec_hour_steps_def)
    have r: "?r = map (\<lambda>i. 3 * int i) [0..<k]"
      unfolding sk by (rule range_whole [OF b])
    have l: "length ?r = k"
      unfolding r by simp
    show ?thesis
      unfolding c2 c3 c4 c5 l using h e r sk by (simp add: forecast_hours_def f l)
  qed
  have ex: "shape (fst ?D) = (65, 47, 3, 361, 720) \<and>
            size_cls (fst ?D) = 4 * 65 * 47 * 3 * 361 * 720 \<and>
            snd ?D =
              Inr \<lparr> obj_id = next_obj w, directory = dir, ds_time = t, new = False,
                    fn = filename t dir [],
                    array = \<lparr> map_length = sz, map_writable = False \<rparr> \<rparr>"
    if k: "sz = 4 * 65 * 47 * 3 * 361 * 720"
  proof -
    have "sz = 4 * 65 * 47 * 3 * 361 * 720 \<and> sz < 2 ^ 53" using k by simp
    from mult [OF this] have m: "shape (fst ?D) = (65, 47, 3, 361, 720)" "size_cls (fst ?D) = sz"
      by simp_all
    have z: "sz \<noteq> 0" using k by simp
    have "snd ?D = Inr \<lparr> obj_id = next_obj w, directory = dir, ds_time = t, new = False,
                    fn = filename t dir [],
                    array = \<lparr> map_length = sz, map_writable = False \<rparr> \<rparr>"
      using m(2) z unfolding D by simp
    then show ?thesis using m k by simp
  qed
  have third: "forecast_range (fst ?D) = [0] \<and>
            shape (fst ?D) = (1, 47, 3, 361, 720) \<and>
            size_cls (fst ?D) = 146594880 \<and>
            snd ?D = Inl (ValueError_size 146594880 195459840)"
    if k: "sz = 195459840"
  proof -
    have r: "?r = [0]" unfolding k by (rule range_third)
    have sc: "size_cls (fst ?D) = 146594880" unfolding c5 r by simp
    have "snd ?D = Inl (ValueError_size 146594880 195459840)"
      using sc k unfolding D by simp
    then show ?thesis unfolding c2 c3 r using sc by simp
  qed
  show ?thesis
    using c1 c1b c2 c3 c4 c5 mult ex third by blast
qed

text \<open>
  A file of 9528667200 bytes and a file of 195459840 bytes, each opened from the state the
  class body leaves.
\<close>

theorem derive_horizon_from_size_witness:
  "shape (fst (Dataset_init (class_body (\<lambda>d. [(''2014020100'', 9528667200)]))
                (2014, 2, 1, 0, 0, 0, 0) ''/srv/tawhiri-datasets'' False True))
     = (65, 47, 3, 361, 720) \<and>
   size_cls (fst (Dataset_init (class_body (\<lambda>d. [(''2014020100'', 9528667200)]))
                (2014, 2, 1, 0, 0, 0, 0) ''/srv/tawhiri-datasets'' False True))
     = 9528667200 \<and>
   forecast_range (fst (Dataset_init (class_body (\<lambda>d. [(''2014020100'', 195459840)]))
                (2014, 2, 1, 0, 0, 0, 0) ''/srv/tawhiri-datasets'' False True))
     = [0] \<and>
   (\<exists>d. snd (Dataset_init (class_body (\<lambda>d. [(''2014020100'', 9528667200)]))
                (2014, 2, 1, 0, 0, 0, 0) ''/srv/tawhiri-datasets'' False True) = Inr d)"
proof -
  let ?A = "class_body (\<lambda>d. [(''2014020100'', 9528667200)])"
  let ?B = "class_body (\<lambda>d. [(''2014020100'', 195459840)])"
  have a: "snd (shape ?A) = (47, 3, 361, 720)" "snd (shape ?B) = (47, 3, 361, 720)"
    by (rule class_body_wf)+
  have b: "map_of (fs ?A ''/srv/tawhiri-datasets'') (strftime_YmdH (2014, 2, 1, 0, 0, 0, 0))
             = Some 9528667200"
    unfolding strftime_2014020100 by (simp add: class_body_def Let_def)
  have c: "map_of (fs ?B ''/srv/tawhiri-datasets'') (strftime_YmdH (2014, 2, 1, 0, 0, 0, 0))
             = Some 195459840"
    unfolding strftime_2014020100 by (simp add: class_body_def Let_def)
  have n: "(9528667200::nat) < 2 ^ 63" "(195459840::nat) < 2 ^ 63" by simp_all
  show ?thesis
    using derive_horizon_from_size [OF a(1) b n(1)] derive_horizon_from_size [OF a(2) c n(2)]
    by auto
qed

text \<open>
  Claim C1, amended. For an existing file opened with \<^verbatim>\<open>new=False\<close>, after the optional
  re-derivation: the call raises the \<^verbatim>\<open>ValueError\<close> that carries the expected and the
  actual size if and only if the file's size differs from the class's size in bytes, for
  every file, the empty one included; when the sizes are equal and the file is not empty
  the call returns a dataset mapped read-only over the whole file. So the call succeeds
  if and only if the sizes are equal and the file is not empty. The call is a single
  pass: the error is its result, nothing is tried again.
\<close>

theorem open_existing_size_check:
  assumes "snd (shape w) = (47, 3, 361, 720)"
    and "map_of (fs w dir) (strftime_YmdH t) = Some sz"
    and "sz < 2 ^ 63"
  shows "size_cls (fst (Dataset_init w t dir False dT)) =
           (if dT then
              4 * length (py_range 0 (py_int (spec_horizon_double sz) + 3) 3) * 47 * 3 * 361 * 720
            else size_cls w) \<and>
         (sz \<noteq> size_cls (fst (Dataset_init w t dir False dT)) \<longrightarrow>
            snd (Dataset_init w t dir False dT) =
              Inl (ValueError_size (size_cls (fst (Dataset_init w t dir False dT))) sz)) \<and>
         ((\<exists>a b. snd (Dataset_init w t dir False dT) = Inl (ValueError_size a b)) \<longleftrightarrow>
            sz \<noteq> size_cls (fst (Dataset_init w t dir False dT))) \<and>
         (sz = size_cls (fst (Dataset_init w t dir False dT)) \<and> sz \<noteq> 0 \<longrightarrow>
            snd (Dataset_init w t dir False dT) =
              Inr \<lparr> obj_id = next_obj w, directory = dir, ds_time = t, new = False,
                    fn = filename t dir [],
                    array = \<lparr> map_length = sz, map_writable = False \<rparr> \<rparr>) \<and>
         ((\<exists>d. snd (Dataset_init w t dir False dT) = Inr d) \<longleftrightarrow>
            sz = size_cls (fst (Dataset_init w t dir False dT)) \<and> sz \<noteq> 0)"
proof (cases dT)
  case True
  let ?B = "w\<lparr> next_obj := next_obj w + 1 \<rparr>"
  let ?r = "py_range 0 (py_int (spec_horizon_double sz) + 3) 3"
  let ?C = "?B\<lparr> size_cls := 4 * length ?r * 47 * 3 * 361 * 720,
                  forecast_range := ?r,
                  shape := (length ?r, 47, 3, 361, 720),
                  axes := spec_axes ?r \<rparr>"
  have s: "setup_cls ?B (spec_horizon_double sz) = Inr ?C"
    by (rule setup_cls_spec)
  have e: "Dataset_init w t dir False dT =
           (?C,
            if sz \<noteq> size_cls ?C then Inl (ValueError_size (size_cls ?C) sz)
            else if sz = 0 then Inl ValueError_mmap_empty
            else Inr \<lparr> obj_id = next_obj w, directory = dir, ds_time = t, new = False,
                       fn = filename t dir [],
                       array = \<lparr> map_length = sz, map_writable = False \<rparr> \<rparr>)"
    using True Dataset_init_derive [OF assms s] by simp
  show ?thesis
    unfolding e using True by simp
next
  case False
  have e: "Dataset_init w t dir False dT =
           (w\<lparr> next_obj := next_obj w + 1 \<rparr>,
            if sz \<noteq> size_cls w then Inl (ValueError_size (size_cls w) sz)
            else if sz = 0 then Inl ValueError_mmap_empty
            else Inr \<lparr> obj_id = next_obj w, directory = dir, ds_time = t, new = False,
                       fn = filename t dir [],
                       array = \<lparr> map_length = sz, map_writable = False \<rparr> \<rparr>)"
    using False Dataset_init_fixed [OF assms(2)] by simp
  show ?thesis
    unfolding e using False by simp
qed

text \<open>
  Without re-derivation a file of the default size opens, and files of 1000 bytes and of
  no bytes are refused with the sizing error; with re-derivation a file of 195459840
  bytes is refused, the expected size being one hour step.
\<close>

theorem open_existing_size_check_witness:
  "(\<exists>d. snd (Dataset_init (class_body (\<lambda>d. [(''2014020100'', 9528667200)]))
              (2014, 2, 1, 0, 0, 0, 0) ''/srv/tawhiri-datasets'' False False) = Inr d) \<and>
   snd (Dataset_init (class_body (\<lambda>d. [(''2014020100'', 1000)]))
              (2014, 2, 1, 0, 0, 0, 0) ''/srv/tawhiri-datasets'' False False)
     = Inl (ValueError_size 9528667200 1000) \<and>
   snd (Dataset_init (class_body (\<lambda>d. [(''2014020100'', 0)]))
              (2014, 2, 1, 0, 0, 0, 0) ''/srv/tawhiri-datasets'' False False)
     = Inl (ValueError_size 9528667200 0) \<and>
   snd (Dataset_init (class_body (\<lambda>d. [(''2014020100'', 195459840)]))
              (2014, 2, 1, 0, 0, 0, 0) ''/srv/tawhiri-datasets'' False True)
     = Inl (ValueError_size 146594880 195459840)"
proof -
  let ?A = "class_body (\<lambda>d. [(''2014020100'', 9528667200)])"
  let ?B = "class_body (\<lambda>d. [(''2014020100'', 1000)])"
  let ?C = "class_body (\<lambda>d. [(''2014020100'', 0)])"
  let ?E = "class_body (\<lambda>d. [(''2014020100'', 195459840)])"
  let ?t = "(2014, 2, 1, 0, 0, 0, 0) :: datetime"
  let ?dir = "''/srv/tawhiri-datasets''"
  have fa: "map_of (fs ?A ?dir) (strftime_YmdH ?t) = Some 9528667200"
    unfolding strftime_2014020100 by (simp add: class_body_def Let_def)
  have fb: "map_of (fs ?B ?dir) (strftime_YmdH ?t) = Some 1000"
    unfolding strftime_2014020100 by (simp add: class_body_def Let_def)
  have fc: "map_of (fs ?C ?dir) (strftime_YmdH ?t) = Some 0"
    unfolding strftime_2014020100 by (simp add: class_body_def Let_def)
  have fe: "map_of (fs ?E ?dir) (strftime_YmdH ?t) = Some 195459840"
    unfolding strftime_2014020100 by (simp add: class_body_def Let_def)
  have n: "(9528667200::nat) < 2 ^ 63" "(1000::nat) < 2 ^ 63" "(0::nat) < 2 ^ 63"
    "(195459840::nat) < 2 ^ 63" by simp_all
  note A = open_existing_size_check [OF class_body_wf fa n(1), of False, unfolded class_body_size]
  note B = open_existing_size_check [OF class_body_wf fb n(2), of False, unfolded class_body_size]
  note C = open_existing_size_check [OF class_body_wf fc n(3), of False, unfolded class_body_size]
  note E = open_existing_size_check [OF class_body_wf fe n(4), of True, unfolded range_third]
  have 1: "\<exists>d. snd (Dataset_init ?A ?t ?dir False False) = Inr d" using A by simp
  have 2: "snd (Dataset_init ?B ?t ?dir False False) = Inl (ValueError_size 9528667200 1000)"
    using B by simp
  have 3: "snd (Dataset_init ?C ?t ?dir False False) = Inl (ValueError_size 9528667200 0)"
    using C by simp
  have 4: "snd (Dataset_init ?E ?t ?dir False True) = Inl (ValueError_size 146594880 195459840)"
    using E by simp
  show ?thesis using 1 2 3 4 by blast
qed

text \<open>
  Claim C1 as stated fails on an empty file opened with \<^verbatim>\<open>determineTime\<close> true: the size 0
  gives \<open>hour_steps = 0.0\<close>, \<^verbatim>\<open>setup(-3.0)\<close> builds \<^verbatim>\<open>range(0, 0, 3)\<close>, the class's size
  becomes 0 and equals the file's size, so no sizing error is raised; \<^verbatim>\<open>mmap.mmap\<close> then
  refuses the empty file and the open fails all the same.
\<close>

theorem open_empty_file_counterexample:
  "map_of (fs (class_body (\<lambda>d. [(''2014020100'', 0)])) ''/srv/tawhiri-datasets'')
       (strftime_YmdH (2014, 2, 1, 0, 0, 0, 0)) = Some 0 \<and>
   size_cls (fst (Dataset_init (class_body (\<lambda>d. [(''2014020100'', 0)]))
                (2014, 2, 1, 0, 0, 0, 0) ''/srv/tawhiri-datasets'' False True)) = 0 \<and>
   snd (Dataset_init (class_body (\<lambda>d. [(''2014020100'', 0)]))
                (2014, 2, 1, 0, 0, 0, 0) ''/srv/tawhiri-datasets'' False True)
     = Inl ValueError_mmap_empty \<and>
   \<not> (\<exists>d. snd (Dataset_init (class_body (\<lambda>d. [(''2014020100'', 0)]))
                (2014, 2, 1, 0, 0, 0, 0) ''/srv/tawhiri-datasets'' False True) = Inr d)"
proof -
  let ?A = "class_body (\<lambda>d. [(''2014020100'', 0)])"
  let ?B = "?A\<lparr> next_obj := next_obj ?A + 1 \<rparr>"
  let ?r = "py_range 0 (py_int (spec_horizon_double 0) + 3) 3"
  let ?C = "?B\<lparr> size_cls := 4 * length ?r * 47 * 3 * 361 * 720,
                  forecast_range := ?r,
                  shape := (length ?r, 47, 3, 361, 720),
                  axes := spec_axes ?r \<rparr>"
  have b: "map_of (fs ?A ''/srv/tawhiri-datasets'') (strftime_YmdH (2014, 2, 1, 0, 0, 0, 0))
             = Some 0"
    unfolding strftime_2014020100 by (simp add: class_body_def Let_def)
  have n: "(0::nat) < 2 ^ 63" by simp
  have s: "setup_cls ?B (spec_horizon_double 0) = Inr ?C"
    by (rule setup_cls_spec)
  have "py_range 0 (py_int (spec_horizon_double (146594880 * 0)) + 3) 3
          = map (\<lambda>i. 3 * int i) [0..<0]"
    by (rule range_whole) simp
  then have l: "?r = []" by simp
  note D = Dataset_init_derive [OF class_body_wf b n s]
  show ?thesis
    unfolding D using b l by simp
qed

text \<open>
  Claim C10. Opening an existing file with \<^verbatim>\<open>determineTime\<close> true assigns the derived
  forecast range, shape, axes and size to the class: they are part of the state that the
  call returns (also when the call then raises), the dataset it returns holds only its
  own six attributes, \<^verbatim>\<open>forecast_hours()\<close> reads the derived shape, a later open without
  re-derivation is checked against the derived size and succeeds exactly on a non-empty
  file of that size, and a later creation maps a file of the derived size.
\<close>

theorem derived_layout_is_class_wide:
  assumes "snd (shape w) = (47, 3, 361, 720)"
    and "map_of (fs w dir) (strftime_YmdH t) = Some sz"
    and "sz < 2 ^ 63"
  shows "forecast_range (fst (Dataset_init w t dir False True))
           = py_range 0 (py_int (spec_horizon_double sz) + 3) 3 \<and>
         shape (fst (Dataset_init w t dir False True))
           = (length (py_range 0 (py_int (spec_horizon_double sz) + 3) 3), 47, 3, 361, 720) \<and>
         axes (fst (Dataset_init w t dir False True))
           = spec_axes (py_range 0 (py_int (spec_horizon_double sz) + 3) 3) \<and>
         size_cls (fst (Dataset_init w t dir False True))
           = 4 * length (py_range 0 (py_int (spec_horizon_double sz) + 3) 3) * 47 * 3 * 361 * 720 \<and>
         forecast_hours (fst (Dataset_init w t dir False True))
           = (int (length (py_range 0 (py_int (spec_horizon_double sz) + 3) 3)) - 1) * 3 \<and>
         fs (fst (Dataset_init w t dir False True)) = fs w \<and>
         (\<forall>d. snd (Dataset_init w t dir False True) = Inr d \<longrightarrow>
            d = \<lparr> obj_id = next_obj w, directory = dir, ds_time = t, new = False,
                  fn = filename t dir [],
                  array = \<lparr> map_length = sz, map_writable = False \<rparr> \<rparr>) \<and>
         (\<forall>t2 dir2 sz2.
            map_of (fs w dir2) (strftime_YmdH t2) = Some sz2 \<longrightarrow>
            snd (Dataset_init (fst (Dataset_init w t dir False True)) t2 dir2 False False)
              = (if sz2 \<noteq> 4 * length (py_range 0 (py_int (spec_horizon_double sz) + 3) 3)
                              * 47 * 3 * 361 * 720
                 then Inl (ValueError_size
                       (4 * length (py_range 0 (py_int (spec_horizon_double sz) + 3) 3)
                          * 47 * 3 * 361 * 720) sz2)
                 else if sz2 = 0 then Inl ValueError_mmap_empty
                 else Inr \<lparr> obj_id = next_obj w + 1, directory = dir2, ds_time = t2, new = False,
                       fn = filename t2 dir2 [],
                       array = \<lparr> map_length = sz2, map_writable = False \<rparr> \<rparr>)) \<and>
         (\<forall>t2 dir2.
            snd (Dataset_init (fst (Dataset_init w t dir False True)) t2 dir2 True False)
              = (if length (py_range 0 (py_int (spec_horizon_double sz) + 3) 3) = 0
                 then Inl OSError_seek
                 else Inr \<lparr> obj_id = next_obj w + 1, directory = dir2, ds_time = t2, new = True,
                       fn = filename t2 dir2 [],
                       array = \<lparr> map_length =
                                   4 * length (py_range 0 (py_int (spec_horizon_double sz) + 3) 3)
                                     * 47 * 3 * 361 * 720,
                                 map_writable = True \<rparr> \<rparr>))"
proof -
  let ?B = "w\<lparr> next_obj := next_obj w + 1 \<rparr>"
  let ?r = "py_range 0 (py_int (spec_horizon_double sz) + 3) 3"
  let ?C = "?B\<lparr> size_cls := 4 * length ?r * 47 * 3 * 361 * 720,
                  forecast_range := ?r,
                  shape := (length ?r, 47, 3, 361, 720),
                  axes := spec_axes ?r \<rparr>"
  have s: "setup_cls ?B (spec_horizon_double sz) = Inr ?C"
    by (rule setup_cls_spec)
  note D = Dataset_init_derive [OF assms s]
  have f: "fst (Dataset_init w t dir False True) = ?C"
    by (simp add: D)
  have inst: "d = \<lparr> obj_id = next_obj w, directory = dir, ds_time = t, new = False,
                  fn = filename t dir [],
                  array = \<lparr> map_length = sz, map_writable = False \<rparr> \<rparr>"
    if "snd (Dataset_init w t dir False True) = Inr d" for d
    using that unfolding D by (simp split: if_splits)
  have later: "snd (Dataset_init ?C t2 dir2 False False)
              = (if sz2 \<noteq> 4 * length ?r * 47 * 3 * 361 * 720
                 then Inl (ValueError_size (4 * length ?r * 47 * 3 * 361 * 720) sz2)
                 else if sz2 = 0 then Inl ValueError_mmap_empty
                 else Inr \<lparr> obj_id = next_obj w + 1, directory = dir2, ds_time = t2, new = False,
                       fn = filename t2 dir2 [],
                       array = \<lparr> map_length = sz2, map_writable = False \<rparr> \<rparr>)"
    if m: "map_of (fs w dir2) (strftime_YmdH t2) = Some sz2" for t2 dir2 sz2
  proof -
    have "map_of (fs ?C dir2) (strftime_YmdH t2) = Some sz2" using m by simp
    from Dataset_init_fixed [OF this] show ?thesis by simp
  qed
  have create: "snd (Dataset_init ?C t2 dir2 True False)
              = (if length ?r = 0 then Inl OSError_seek
                 else Inr \<lparr> obj_id = next_obj w + 1, directory = dir2, ds_time = t2, new = True,
                       fn = filename t2 dir2 [],
                       array = \<lparr> map_length = 4 * length ?r * 47 * 3 * 361 * 720,
                                 map_writable = True \<rparr> \<rparr>)" for t2 dir2
    by (simp add: Dataset_init_def Let_def mmap_whole_cases)
  show ?thesis
    unfolding f using inst later create by (simp add: forecast_hours_def)
qed

text \<open>
  After a file of 195459840 bytes has been opened (and refused), the class reports 0
  forecast hours instead of 192; a file of one hour step, 146594880 bytes, then opens
  without re-derivation, and a file of the default size no longer does.
\<close>

theorem derived_layout_is_class_wide_witness:
  "forecast_hours (class_body (\<lambda>d. [(''2014020100'', 195459840), (''2014020103'', 146594880),
                                       (''2014020106'', 9528667200)]))
     = 192 \<and>
   forecast_hours
     (fst (Dataset_init
             (class_body (\<lambda>d. [(''2014020100'', 195459840), (''2014020103'', 146594880),
                                 (''2014020106'', 9528667200)]))
             (2014, 2, 1, 0, 0, 0, 0) ''/srv/tawhiri-datasets'' False True))
     = 0 \<and>
   (\<exists>d. snd (Dataset_init
          (fst (Dataset_init
             (class_body (\<lambda>d. [(''2014020100'', 195459840), (''2014020103'', 146594880),
                                 (''2014020106'', 9528667200)]))
             (2014, 2, 1, 0, 0, 0, 0) ''/srv/tawhiri-datasets'' False True))
          (2014, 2, 1, 3, 0, 0, 0) ''/srv/tawhiri-datasets'' False False) = Inr d) \<and>
   snd (Dataset_init
          (fst (Dataset_init
             (class_body (\<lambda>d. [(''2014020100'', 195459840), (''2014020103'', 146594880),
                                 (''2014020106'', 9528667200)]))
             (2014, 2, 1, 0, 0, 0, 0) ''/srv/tawhiri-datasets'' False True))
          (2014, 2, 1, 6, 0, 0, 0) ''/srv/tawhiri-datasets'' False False)
     = Inl (ValueError_size 146594880 9528667200)"
proof -
  let ?A = "class_body (\<lambda>d. [(''2014020100'', 195459840), (''2014020103'', 146594880),
                              (''2014020106'', 9528667200)])"
  let ?dir = "''/srv/tawhiri-datasets''"
  let ?D = "fst (Dataset_init ?A (2014, 2, 1, 0, 0, 0, 0) ?dir False True)"
  have b: "map_of (fs ?A ?dir) (strftime_YmdH (2014, 2, 1, 0, 0, 0, 0)) = Some 195459840"
    unfolding strftime_2014020100 by (simp add: class_body_def Let_def)
  have c: "map_of (fs ?A ?dir) (strftime_YmdH (2014, 2, 1, 3, 0, 0, 0)) = Some 146594880"
    unfolding strftime_2014020103 by (simp add: class_body_def Let_def)
  have e: "map_of (fs ?A ?dir) (strftime_YmdH (2014, 2, 1, 6, 0, 0, 0)) = Some 9528667200"
    unfolding strftime_2014020106 by (simp add: class_body_def Let_def)
  have n: "(195459840::nat) < 2 ^ 63" by simp
  have i: "forecast_hours ?A = 192"
    by (simp add: forecast_hours_def class_body_def Let_def length_py_range)
  note T = derived_layout_is_class_wide [OF class_body_wf b n, unfolded range_third]
  have 1: "forecast_hours ?D = 0" using T by simp
  note L = T [THEN conjunct2, THEN conjunct2, THEN conjunct2, THEN conjunct2, THEN conjunct2,
              THEN conjunct2, THEN conjunct2, THEN conjunct1]
  have 2: "\<exists>d. snd (Dataset_init ?D (2014, 2, 1, 3, 0, 0, 0) ?dir False False) = Inr d"
    using L [THEN spec, THEN spec, THEN spec, THEN mp, OF c] by simp
  have 3: "snd (Dataset_init ?D (2014, 2, 1, 6, 0, 0, 0) ?dir False False)
             = Inl (ValueError_size 146594880 9528667200)"
    using L [THEN spec, THEN spec, THEN spec, THEN mp, OF e] by simp
  show ?thesis using i 1 2 3 by blast
qed

section \<open>Scanning and selecting the latest dataset\<close>

text \<open>
  Claim C7. The scan keeps the names of at least ten characters whose first ten characters
  parse, with the rest of the name as the suffix, and a non-empty filter keeps the entries
  whose suffix is a member (\<open>listdir_unfiltered_set\<close>, \<open>listdir_nonempty_filter_set\<close>
  below). The filter, however, is tested for its truth value, not against \<^verbatim>\<open>None\<close>: a filter that is given but
  empty filters nothing. With \<^verbatim>\<open>only_suffices=set()\<close> the entry
  \<^verbatim>\<open>2014020100.gribmirror\<close> is yielded although its suffix is not a member of the filter,
  against the claim and against the docstring ("if not None, only return results with a
  suffix contained in this set").
\<close>

theorem listdir_empty_filter_yields_all:
  "listdir (class_body (\<lambda>d. [(''2014020100.gribmirror'', 0)])) ''/srv/tawhiri-datasets'' (Some [])
     = [((2014, 2, 1, 0, 0, 0, 0), ''.gribmirror'', ''2014020100.gribmirror'',
         ''/srv/tawhiri-datasets/2014020100.gribmirror'')]"
  by (simp add: listdir_def os_listdir_def class_body_def Let_def strptime_YmdH_def
      two_digits_def digit_val_def days_in_month_def is_leap_def skip_suffix_def path_join_def)



lemma listdir_loop_set:
  "set (listdir_loop dir only names) =
     {(t, drop 10 n, n, path_join dir n) | t n.
        n \<in> set names \<and> 10 \<le> length n \<and> strptime_YmdH (take 10 n) = Some t \<and>
        \<not> skip_suffix only (drop 10 n)}"
  by (induction names) (auto simp: Let_def split: option.splits)


lemma listdir_nonempty_filter_set:
  "xs \<noteq> [] \<Longrightarrow>
   set (listdir w dir (Some xs)) =
     {(t, drop 10 n, n, path_join dir n) | t n.
        n \<in> set (os_listdir w dir) \<and> 10 \<le> length n \<and> strptime_YmdH (take 10 n) = Some t \<and>
        drop 10 n \<in> set xs}"
  by (simp add: listdir_def listdir_loop_set skip_suffix_def)

lemma sorted_le_last:
  fixes xs :: "('a::linorder) list"
  shows "sorted xs \<Longrightarrow> y \<in> set xs \<Longrightarrow> y \<le> last xs"
  by (induction xs) auto

lemma last_sort_Max:
  fixes xs :: "('a::linorder) list"
  assumes "xs \<noteq> []"
  shows "last (sort xs) = Max (set xs)"
proof -
  have ne: "sort xs \<noteq> []" using assms by (metis length_sort length_0_conv)
  have "Max (set (sort xs)) = last (sort xs)"
  proof (rule Max_eqI)
    show "finite (set (sort xs))" by simp
    show "\<And>y. y \<in> set (sort xs) \<Longrightarrow> y \<le> last (sort xs)"
      by (rule sorted_le_last) simp_all
    show "last (sort xs) \<in> set (sort xs)" using ne by (rule last_in_set)
  qed
  then show ?thesis by simp
qed

lemma fst_Max_lex:
  fixes A :: "(('a::linorder) \<times> ('b::linorder)) set"
  assumes "finite A" and "A \<noteq> {}"
  shows "fst (Max A) = Max (fst ` A)"
proof (rule sym, rule Max_eqI)
  show "finite (fst ` A)" using assms by simp
  show "fst (Max A) \<in> fst ` A" using assms by (simp add: Max_in)
  fix y assume "y \<in> fst ` A"
  then obtain a where a: "a \<in> A" "y = fst a" by auto
  then have "a \<le> Max A" using assms by simp
  then show "y \<le> fst (Max A)" using a by (auto simp: less_eq_prod_def)
qed

lemma latest_of_Max:
  assumes "rows \<noteq> []"
  shows "latest_of rows = Inr (Max (set (map fst rows)))"
proof -
  have ne: "rev (sort rows) \<noteq> []" using assms by (metis length_sort length_0_conv rev_is_Nil_conv)
  then obtain r rs where c: "rev (sort rows) = r # rs" by (cases "rev (sort rows)") auto
  then have "r = hd (rev (sort rows))" by simp
  also have "\<dots> = last (sort rows)" using ne by (simp add: hd_rev)
  also have "\<dots> = Max (set rows)" using assms by (rule last_sort_Max)
  finally have "fst r = Max (fst ` set rows)"
    using assms by (simp add: fst_Max_lex)
  then show ?thesis using c by (simp add: latest_of_def sorted_reverse_def)
qed

lemma Dataset_init_fields:
  "Dataset_init w t dir n dT = (w', Inr d) \<Longrightarrow>
     ds_time d = t \<and> directory d = dir \<and> obj_id d = next_obj w \<and> new d = n"
  by (auto simp: Dataset_init_def Let_def mmap_whole_def
      split: if_splits option.splits sum.splits)

lemma listdir_fs_cong: "fs w' = fs w \<Longrightarrow> listdir w' dir only = listdir w dir only"
  by (simp add: listdir_def os_listdir_def)

lemma Dataset_init_existing_frame:
  "Dataset_init w t dir False dT = (w', r) \<Longrightarrow>
     fs w' = fs w \<and> cached_latest w' = cached_latest w \<and> alarm w' = alarm w"
  by (auto simp: Dataset_init_def Let_def setup_cls_eq split: if_splits option.splits sum.splits)











lemma Dataset_init_existing_result:
  assumes "snd (shape w) = (47, 3, 361, 720)"
    and "map_of (fs w dir) (strftime_YmdH t) = Some sz"
    and "sz < 2 ^ 63"
  shows "snd (Dataset_init w t dir False dT) =
           (if sz \<noteq> (if dT then 4 * length (py_range 0 (py_int (spec_horizon_double sz) + 3) 3)
                                  * 47 * 3 * 361 * 720
                         else size_cls w)
            then Inl (ValueError_size
                        (if dT then 4 * length (py_range 0 (py_int (spec_horizon_double sz) + 3) 3)
                                      * 47 * 3 * 361 * 720
                         else size_cls w) sz)
            else if sz = 0 then Inl ValueError_mmap_empty
            else Inr \<lparr> obj_id = next_obj w, directory = dir, ds_time = t, new = False,
                       fn = filename t dir [],
                       array = \<lparr> map_length = sz, map_writable = False \<rparr> \<rparr>)"
proof (cases dT)
  case True
  let ?B = "w\<lparr> next_obj := next_obj w + 1 \<rparr>"
  let ?r = "py_range 0 (py_int (spec_horizon_double sz) + 3) 3"
  let ?C = "?B\<lparr> size_cls := 4 * length ?r * 47 * 3 * 361 * 720,
                  forecast_range := ?r,
                  shape := (length ?r, 47, 3, 361, 720),
                  axes := spec_axes ?r \<rparr>"
  have s: "setup_cls ?B (spec_horizon_double sz) = Inr ?C"
    by (rule setup_cls_spec)
  have e: "Dataset_init w t dir False dT =
           (?C,
            if sz \<noteq> size_cls ?C then Inl (ValueError_size (size_cls ?C) sz)
            else if sz = 0 then Inl ValueError_mmap_empty
            else Inr \<lparr> obj_id = next_obj w, directory = dir, ds_time = t, new = False,
                       fn = filename t dir [],
                       array = \<lparr> map_length = sz, map_writable = False \<rparr> \<rparr>)"
    using True Dataset_init_derive [OF assms s] by simp
  show ?thesis
    unfolding e using True by simp
next
  case False
  have e: "Dataset_init w t dir False dT =
           (w\<lparr> next_obj := next_obj w + 1 \<rparr>,
            if sz \<noteq> size_cls w then Inl (ValueError_size (size_cls w) sz)
            else if sz = 0 then Inl ValueError_mmap_empty
            else Inr \<lparr> obj_id = next_obj w, directory = dir, ds_time = t, new = False,
                       fn = filename t dir [],
                       array = \<lparr> map_length = sz, map_writable = False \<rparr> \<rparr>)"
    using False Dataset_init_fixed [OF assms(2)] by simp
  show ?thesis
    unfolding e using False by simp
qed





lemma Dataset_init_whole_steps:
  assumes "snd (shape w) = (47, 3, 361, 720)"
    and "map_of (fs w dir) (strftime_YmdH t) = Some (146594880 * k)"
    and "k \<noteq> 0"
    and "146594880 * k < (2::nat) ^ 53"
  shows "\<exists>w' d. Dataset_init w t dir False True = (w', Inr d)"
proof -
  let ?sz = "146594880 * k"
  have b: "?sz < 2 ^ 63"
    using assms(4) by (rule less_trans) simp
  have l: "length (py_range 0 (py_int (spec_horizon_double ?sz) + 3) 3) = k"
    unfolding range_whole [OF assms(4)] by simp
  have "snd (Dataset_init w t dir False True) =
          Inr \<lparr> obj_id = next_obj w, directory = dir, ds_time = t, new = False,
                fn = filename t dir [],
                array = \<lparr> map_length = ?sz, map_writable = False \<rparr> \<rparr>"
    unfolding Dataset_init_existing_result [OF assms(1,2) b] l using assms(3) by simp
  then show ?thesis by (metis prod.collapse)
qed


section \<open>The cache\<close>

lemma valid_cached_iff:
  "valid_cached w latest dir = Some c \<longleftrightarrow>
     cached_latest w = Some c \<and> ds_time c = latest \<and> directory c = dir"
  by (auto simp: valid_cached_def split: option.splits)

lemma valid_cached_None_iff:
  "valid_cached w latest dir = None \<longleftrightarrow>
     (\<forall>c. cached_latest w = Some c \<longrightarrow> ds_time c \<noteq> latest \<or> directory c \<noteq> dir)"
  by (auto simp: valid_cached_def split: option.splits)

lemma open_latest_twice:
  assumes "open_latest w dir True dT = (w1, Inr d1)"
  shows "open_latest w1 dir True dT2 = (w1, Inr d1) \<and> cached_latest w1 = Some d1 \<and> alarm w1 = Some 60"
proof -
  obtain latest where l: "latest_of (listdir w dir (Some [[]])) = Inr latest"
    using assms by (cases "latest_of (listdir w dir (Some [[]]))") (auto simp: open_latest_def)
  have hit: "open_latest w1 dir True dT2 = (w1, Inr d1)"
    if f: "fs w1 = fs w" and c: "cached_latest w1 = Some d1" and t: "ds_time d1 = latest"
      and d: "directory d1 = dir" and a: "alarm w1 = Some 60"
  proof -
    have "latest_of (listdir w1 dir (Some [[]])) = Inr latest"
      using l listdir_fs_cong [OF f] by simp
    moreover have "valid_cached w1 latest dir = Some d1"
      using c t d by (simp add: valid_cached_iff)
    moreover have "w1\<lparr> alarm := Some 60 \<rparr> = w1"
      using a by simp
    ultimately show ?thesis by (simp add: open_latest_def)
  qed
  show ?thesis
  proof (cases "valid_cached w latest dir")
    case (Some c)
    then have w1: "w1 = w\<lparr> alarm := Some 60 \<rparr>" and d1: "d1 = c"
      using assms l by (auto simp: open_latest_def)
    have c: "cached_latest w = Some c" "ds_time c = latest" "directory c = dir"
      using Some by (simp_all add: valid_cached_iff)
    show ?thesis
      using hit c by (simp add: w1 d1)
  next
    case None
    obtain w2 r2 where D: "Dataset_init w latest dir False dT = (w2, r2)"
      by (cases "Dataset_init w latest dir False dT")
    have o: "open_latest w dir True dT =
               (case r2 of Inl e \<Rightarrow> (w2, Inl e)
                | Inr ds \<Rightarrow> (w2\<lparr> alarm := Some 60, cached_latest := Some ds \<rparr>, Inr ds))"
      using l None D by (simp add: open_latest_def)
    have r2: "r2 = Inr d1"
      using o assms by (cases r2) auto
    have w1: "w1 = w2\<lparr> alarm := Some 60, cached_latest := Some d1 \<rparr>"
      using o assms r2 by simp
    have fr: "fs w2 = fs w"
      using Dataset_init_existing_frame [OF D] by simp
    have fl: "ds_time d1 = latest" "directory d1 = dir"
      using Dataset_init_fields [OF D [unfolded r2]] by simp_all
    show ?thesis
      using hit fr fl by (simp add: w1)
  qed
qed

text \<open>
  Claim C4. With \<open>latest\<close> the selected time: if the cached dataset has that time and the
  requested directory, \<^verbatim>\<open>open_latest\<close> returns it (and re-arms the alarm when
  \<^verbatim>\<open>persistent\<close>); otherwise it constructs a new \<^verbatim>\<open>Dataset\<close>, a fresh object, which
  replaces the cache entry when \<^verbatim>\<open>persistent\<close>. Consequently a second
  \<^verbatim>\<open>open_latest(dir, persistent=True)\<close> right after a first one that returned a dataset
  (no alarm delivered in between, directory unchanged) returns the same object and
  constructs nothing.
\<close>

theorem latest_cache_correct:
  "(\<forall>latest. latest_of (listdir w dir (Some [[]])) = Inr latest \<longrightarrow>
      (\<forall>c. cached_latest w = Some c \<and> ds_time c = latest \<and> directory c = dir \<longrightarrow>
           open_latest w dir persistent dT =
             ((if persistent then w\<lparr> alarm := Some 60 \<rparr> else w), Inr c)) \<and>
      ((\<forall>c. cached_latest w = Some c \<longrightarrow> ds_time c \<noteq> latest \<or> directory c \<noteq> dir) \<longrightarrow>
           open_latest w dir persistent dT =
             (case Dataset_init w latest dir False dT of
                (w', Inl e) \<Rightarrow> (w', Inl e)
              | (w', Inr ds) \<Rightarrow>
                  ((if persistent then w'\<lparr> alarm := Some 60, cached_latest := Some ds \<rparr>
                    else w'),
                   Inr ds)) \<and>
           (\<forall>w' ds. open_latest w dir persistent dT = (w', Inr ds) \<longrightarrow>
              obj_id ds = next_obj w \<and> next_obj w' = next_obj w + 1 \<and>
              (persistent \<longrightarrow> cached_latest w' = Some ds \<and> alarm w' = Some 60)))) \<and>
   (\<forall>w1 d1 dT2. open_latest w dir True dT = (w1, Inr d1) \<longrightarrow>
      open_latest w1 dir True dT2 = (w1, Inr d1))"
proof -
  have hit: "open_latest w dir persistent dT =
             ((if persistent then w\<lparr> alarm := Some 60 \<rparr> else w), Inr c)"
    if "latest_of (listdir w dir (Some [[]])) = Inr latest"
      and "cached_latest w = Some c \<and> ds_time c = latest \<and> directory c = dir" for latest c
  proof -
    have "valid_cached w latest dir = Some c"
      using that(2) by (simp add: valid_cached_iff)
    then show ?thesis using that(1) by (simp add: open_latest_def)
  qed
  have miss: "open_latest w dir persistent dT =
             (case Dataset_init w latest dir False dT of
                (w', Inl e) \<Rightarrow> (w', Inl e)
              | (w', Inr ds) \<Rightarrow>
                  ((if persistent then w'\<lparr> alarm := Some 60, cached_latest := Some ds \<rparr>
                    else w'),
                   Inr ds))"
    if "latest_of (listdir w dir (Some [[]])) = Inr latest"
      and "\<forall>c. cached_latest w = Some c \<longrightarrow> ds_time c \<noteq> latest \<or> directory c \<noteq> dir" for latest
  proof -
    have "valid_cached w latest dir = None"
      using that(2) by (simp add: valid_cached_None_iff)
    then show ?thesis using that(1) by (simp add: open_latest_def)
  qed
  have fresh: "obj_id ds = next_obj w \<and> next_obj w' = next_obj w + 1 \<and>
              (persistent \<longrightarrow> cached_latest w' = Some ds \<and> alarm w' = Some 60)"
    if l: "latest_of (listdir w dir (Some [[]])) = Inr latest"
      and n: "\<forall>c. cached_latest w = Some c \<longrightarrow> ds_time c \<noteq> latest \<or> directory c \<noteq> dir"
      and o: "open_latest w dir persistent dT = (w', Inr ds)" for latest w' ds
  proof -
    obtain w2 r2 where D: "Dataset_init w latest dir False dT = (w2, r2)"
      by (cases "Dataset_init w latest dir False dT")
    have r2: "r2 = Inr ds"
      using o miss [OF l n] D by (cases r2) auto
    have w': "w' = (if persistent then w2\<lparr> alarm := Some 60, cached_latest := Some ds \<rparr> else w2)"
      using o miss [OF l n] D r2 by simp
    have "next_obj w2 = next_obj w + 1"
      using D by (auto simp: Dataset_init_def Let_def setup_cls_eq
          split: if_splits option.splits sum.splits)
    then show ?thesis
      using Dataset_init_fields [OF D [unfolded r2]] by (simp add: w')
  qed
  have twice: "open_latest w1 dir True dT2 = (w1, Inr d1)"
    if "open_latest w dir True dT = (w1, Inr d1)" for w1 d1 dT2
    using open_latest_twice [OF that] by simp
  show ?thesis
  proof (intro conjI allI impI)
    fix latest c
    assume "latest_of (listdir w dir (Some [[]])) = Inr latest"
      and "cached_latest w = Some c \<and> ds_time c = latest \<and> directory c = dir"
    then show "open_latest w dir persistent dT =
             ((if persistent then w\<lparr> alarm := Some 60 \<rparr> else w), Inr c)"
      by (rule hit)
  next
    fix latest
    assume "latest_of (listdir w dir (Some [[]])) = Inr latest"
      and "\<forall>c. cached_latest w = Some c \<longrightarrow> ds_time c \<noteq> latest \<or> directory c \<noteq> dir"
    then show "open_latest w dir persistent dT =
             (case Dataset_init w latest dir False dT of
                (w', Inl e) \<Rightarrow> (w', Inl e)
              | (w', Inr ds) \<Rightarrow>
                  ((if persistent then w'\<lparr> alarm := Some 60, cached_latest := Some ds \<rparr>
                    else w'),
                   Inr ds))"
      by (rule miss)
  next
    fix latest w' ds
    assume a: "latest_of (listdir w dir (Some [[]])) = Inr latest"
      "\<forall>c. cached_latest w = Some c \<longrightarrow> ds_time c \<noteq> latest \<or> directory c \<noteq> dir"
      "open_latest w dir persistent dT = (w', Inr ds)"
    note f = fresh [OF a]
    show "obj_id ds = next_obj w" using f by simp
    show "next_obj w' = next_obj w + 1" using f by simp
    assume persistent
    then show "cached_latest w' = Some ds" "alarm w' = Some 60" using f by simp_all
  next
    fix w1 d1 dT2
    assume "open_latest w dir True dT = (w1, Inr d1)"
    then show "open_latest w1 dir True dT2 = (w1, Inr d1)"
      by (rule twice)
  qed
qed

text \<open>Two calls in succession on a directory of two files: both return object 0.\<close>

theorem latest_cache_correct_witness:
  "\<exists>w1 d1.
     open_latest (class_body (\<lambda>d. [(''2014020100'', 9528667200), (''2014020103'', 9528667200)]))
        ''/srv/tawhiri-datasets'' True True = (w1, Inr d1) \<and>
     open_latest w1 ''/srv/tawhiri-datasets'' True True = (w1, Inr d1) \<and>
     obj_id d1 = 0 \<and> next_obj w1 = 1"
proof -
  let ?A = "class_body (\<lambda>d. [(''2014020100'', 9528667200), (''2014020103'', 9528667200)])"
  let ?dir = "''/srv/tawhiri-datasets''"
  have rows: "listdir ?A ?dir (Some [[]]) =
       [((2014, 2, 1, 0, 0, 0, 0), [], ''2014020100'', ''/srv/tawhiri-datasets/2014020100''),
        ((2014, 2, 1, 3, 0, 0, 0), [], ''2014020103'', ''/srv/tawhiri-datasets/2014020103'')]"
    by (simp add: listdir_def os_listdir_def class_body_def Let_def strptime_YmdH_def
        two_digits_def digit_val_def days_in_month_def is_leap_def skip_suffix_def path_join_def)
  have l: "latest_of (listdir ?A ?dir (Some [[]])) = Inr (2014, 2, 1, 3, 0, 0, 0)"
    unfolding rows by (simp add: latest_of_Max)
  have n: "\<forall>c. cached_latest ?A = Some c \<longrightarrow>
             ds_time c \<noteq> (2014, 2, 1, 3, 0, 0, 0) \<or> directory c \<noteq> ?dir"
    by (simp add: class_body_def Let_def)
  have inv: "snd (shape ?A) = (47, 3, 361, 720)"
    by (simp add: class_body_def Let_def)
  have fl: "map_of (fs ?A ?dir) (strftime_YmdH (2014, 2, 1, 3, 0, 0, 0)) = Some (146594880 * 65)"
    unfolding strftime_2014020103 by (simp add: class_body_def Let_def)
  have k: "(65::nat) \<noteq> 0" "146594880 * 65 < (2::nat) ^ 53" by simp_all
  obtain w' d where D: "Dataset_init ?A (2014, 2, 1, 3, 0, 0, 0) ?dir False True = (w', Inr d)"
    using Dataset_init_whole_steps [OF inv fl k] by blast
  note T = latest_cache_correct [of ?A ?dir True True]
  note T1 = T [THEN conjunct1, THEN spec, THEN mp, OF l, THEN conjunct2, THEN mp, OF n]
  have o: "open_latest ?A ?dir True True = (w'\<lparr> alarm := Some 60, cached_latest := Some d \<rparr>, Inr d)"
    using T1 [THEN conjunct1] unfolding D by simp
  note f = T1 [THEN conjunct2, THEN spec, THEN spec, THEN mp, OF o]
  note tw = T [THEN conjunct2, THEN spec, THEN spec, THEN spec, THEN mp, OF o, of True]
  have z: "next_obj ?A = 0" by (simp add: class_body_def Let_def)
  have "obj_id d = 0" "next_obj (w'\<lparr> alarm := Some 60, cached_latest := Some d \<rparr>) = 1"
    using f z by simp_all
  then show ?thesis
    using o tw by blast
qed

section \<open>The shared descent marker\<close>

lemma up_down_result_mark_free:
  assumes "dd < 0 \<or> \<not> in_descent_window sun dbs p"
  shows "snd (make_ascent_descent sun ar fa dr dbs dd m p)
           = snd (make_ascent_descent sun ar fa dr dbs dd m' p)"
  using assms
  by (cases p)
     (auto simp: make_ascent_descent_def in_descent_window_def Let_def split: option.splits)

lemma results_of_first_Nil: "results_of_first a b m [] = []"
  by (simp add: results_of_first_def schedule_calls_def)

lemma results_of_first_True:
  "results_of_first a b m ((True, p) # rest)
     = snd (a m p) # results_of_first a b (fst (a m p)) rest"
  by (simp add: results_of_first_def schedule_calls_def case_prod_beta)

lemma results_of_first_False:
  "results_of_first a b m ((False, p) # rest) = results_of_first a b (fst (b m p)) rest"
  by (simp add: results_of_first_def schedule_calls_def case_prod_beta)

lemma results_alone_Nil: "results_alone a m [] = []"
  by (simp add: results_alone_def)

lemma results_alone_True:
  "results_alone a m ((True, p) # rest) = snd (a m p) # results_alone a (fst (a m p)) rest"
  by (simp add: results_alone_def case_prod_beta)

lemma results_alone_False:
  "results_alone a m ((False, p) # rest) = results_alone a m rest"
  by (simp add: results_alone_def)

lemma unbounded_descent_isolated:
  assumes "dd < 0"
  shows "results_of_first (make_ascent_descent sun ar fa dr dbs dd) b m sched
           = results_alone (make_ascent_descent sun ar fa dr dbs dd) m' sched"
proof (induction sched arbitrary: m m')
  case Nil
  show ?case by (simp add: results_of_first_Nil results_alone_Nil)
next
  case (Cons c rest)
  obtain first p where c: "c = (first, p)" by (cases c)
  show ?case
  proof (cases first)
    case True
    have "snd (make_ascent_descent sun ar fa dr dbs dd m p)
            = snd (make_ascent_descent sun ar fa dr dbs dd m' p)"
      using assms by (intro up_down_result_mark_free) simp
    then show ?thesis
      using Cons.IH True c by (simp add: results_of_first_True results_alone_True)
  next
    case False
    then show ?thesis
      using Cons.IH c by (simp add: results_of_first_False results_alone_False)
  qed
qed

text \<open>
  Claim C5, amended. \<^verbatim>\<open>descend_mark\<close> is one variable of the module, shared by every
  model that \<^verbatim>\<open>make_ascent_descent\<close> creates. What the code isolates is this: a call
  outside the descent window, and any call of a model whose \<^verbatim>\<open>descent_duration\<close> is
  negative, returns the same result whatever the marker holds; so for a model with a
  negative \<^verbatim>\<open>descent_duration\<close>, interleaved calls of any other model never change the
  results it returns.
\<close>

theorem scheduler_marker_dependence:
  "(dd < 0 \<or> \<not> in_descent_window sun dbs p \<longrightarrow>
      snd (make_ascent_descent sun ar fa dr dbs dd m p)
        = snd (make_ascent_descent sun ar fa dr dbs dd m' p)) \<and>
   (dd < 0 \<longrightarrow>
      results_of_first (make_ascent_descent sun ar fa dr dbs dd) b m sched
        = results_alone (make_ascent_descent sun ar fa dr dbs dd) m sched)"
  using up_down_result_mark_free unbounded_descent_isolated by blast

text \<open>
  A model with unbounded descent, interleaved with a model with a cutoff of 100 seconds.
\<close>

theorem scheduler_marker_dependence_witness:
  "results_of_first
     (make_ascent_descent
        \<lparr> sunrise_time = (\<lambda>lat lng t. Some 5000), sunset_time = (\<lambda>lat lng t. Some 400) \<rparr>
        1 5500 2 0 (-1))
     (make_ascent_descent
        \<lparr> sunrise_time = (\<lambda>lat lng t. Some 5000), sunset_time = (\<lambda>lat lng t. Some 400) \<rparr>
        1 5500 2 0 100)
     descend_mark_init
     [(False, (500, 0, 0, 1000)), (True, (1000, 0, 0, 1000))]
   = [(0, 0, -2)] \<and>
   results_alone
     (make_ascent_descent
        \<lparr> sunrise_time = (\<lambda>lat lng t. Some 5000), sunset_time = (\<lambda>lat lng t. Some 400) \<rparr>
        1 5500 2 0 (-1))
     descend_mark_init
     [(False, (500, 0, 0, 1000)), (True, (1000, 0, 0, 1000))]
   = [(0, 0, -2)]"
proof -
  let ?sun = "\<lparr> sunrise_time = (\<lambda>lat lng t. Some 5000), sunset_time = (\<lambda>lat lng t. Some 400) \<rparr>"
  let ?sched = "[(False, (500, 0, 0, 1000)), (True, (1000::real, 0::real, 0::real, 1000::real))]"
  have d: "(-1::real) < 0" by simp
  have al: "results_alone (make_ascent_descent ?sun 1 5500 2 0 (-1)) descend_mark_init ?sched
              = [(0, 0, -2)]"
    by (simp add: results_alone_def make_ascent_descent_def should_descend_def
        descend_mark_init_def Let_def)
  show ?thesis
    using scheduler_marker_dependence
            [of "-1" ?sun 0 "(1000, 0, 0, 1000)" 1 5500 2 descend_mark_init descend_mark_init
               "make_ascent_descent ?sun 1 5500 2 0 100" ?sched]
          d al
    by simp
qed

text \<open>
  Claim C5 as stated fails. Two models with a cutoff of 100 seconds, in a window that is
  open from 400 to 5000: called alone at time 1000 the first model sets the marker to 1000
  and descends; when the second model has been called at time 500 before, the marker is
  500, the first model finds \<open>1000 > 500 + 100\<close> and holds.
\<close>

theorem shared_marker_counterexample:
  "results_of_first
     (make_ascent_descent
        \<lparr> sunrise_time = (\<lambda>lat lng t. Some 5000), sunset_time = (\<lambda>lat lng t. Some 400) \<rparr>
        1 5500 2 0 100)
     (make_ascent_descent
        \<lparr> sunrise_time = (\<lambda>lat lng t. Some 5000), sunset_time = (\<lambda>lat lng t. Some 400) \<rparr>
        1 5500 2 0 100)
     descend_mark_init
     [(False, (500, 0, 0, 1000)), (True, (1000, 0, 0, 1000))]
   = [(0, 0, 0)] \<and>
   results_alone
     (make_ascent_descent
        \<lparr> sunrise_time = (\<lambda>lat lng t. Some 5000), sunset_time = (\<lambda>lat lng t. Some 400) \<rparr>
        1 5500 2 0 100)
     descend_mark_init
     [(False, (500, 0, 0, 1000)), (True, (1000, 0, 0, 1000))]
   = [(0, 0, -2)]"
  by (simp add: results_of_first_def results_alone_def schedule_calls_def
      make_ascent_descent_def should_descend_def descend_mark_init_def Let_def)

end
